theory Spec2Isabelle
  imports Complex_Main
begin

section \<open>Text primitives of the parsers\<close>

text \<open>
  The parsers of \<^verbatim>\<open>repeatmasking_utils.py\<close> read text files line by line and use
  \<^verbatim>\<open>str.split()\<close>, three regular expressions, \<^verbatim>\<open>int\<close> and \<^verbatim>\<open>str\<close>.
  Text is modelled as \<open>string\<close> restricted to ASCII: the whitespace of
  \<^verbatim>\<open>split()\<close> and \<^verbatim>\<open>\s\<close> is the ASCII part of \<^verbatim>\<open>str.isspace\<close>
  (codes 9 to 13, 28 to 31 and 32), and \<^verbatim>\<open>\d\<close> is \<open>0\<close> to \<open>9\<close>.
  Integers are unbounded, as Python's are; the interpreter's limit on the number of
  digits that \<^verbatim>\<open>int\<close> converts is not part of the model.
\<close>

datatype py_error =
    FileNotFoundError string
  | ValueError string
  | IndexError
  | TypeError
  | SystemExit

definition newline :: char where
  "newline = CHR 0x0A"

definition tab :: char where
  "tab = CHR 0x09"

definition dquote :: char where
  "dquote = CHR 0x22"

definition is_space :: "char \<Rightarrow> bool" where
  "is_space c = (c \<in> {CHR 0x09, CHR 0x0A, CHR 0x0B, CHR 0x0C, CHR 0x0D,
                         CHR 0x1C, CHR 0x1D, CHR 0x1E, CHR 0x1F, CHR 0x20})"

definition is_digit :: "char \<Rightarrow> bool" where
  "is_digit c = (c \<in> set ''0123456789'')"

text \<open>\<^verbatim>\<open>line.split()\<close>: the maximal runs of non-whitespace, in order.\<close>

fun split_acc :: "string \<Rightarrow> string \<Rightarrow> string list" where
  "split_acc cur [] = (if cur = [] then [] else [cur])"
| "split_acc cur (c # cs) =
     (if is_space c then (if cur = [] then split_acc [] cs else cur # split_acc [] cs)
      else split_acc (cur @ [c]) cs)"

definition split_ws :: "string \<Rightarrow> string list" where
  "split_ws s = split_acc [] s"

text \<open>\<^verbatim>\<open>int(s)\<close> on a run of ASCII digits, and \<^verbatim>\<open>str(n)\<close> on an integer.\<close>

definition digit_val :: "char \<Rightarrow> nat" where
  "digit_val c = of_char c - 48"

definition int_of_digits :: "string \<Rightarrow> nat" where
  "int_of_digits s = foldl (\<lambda>n c. 10 * n + digit_val c) 0 s"

definition digit_char :: "nat \<Rightarrow> char" where
  "digit_char d = ''0123456789'' ! d"

function str_nat :: "nat \<Rightarrow> string" where
  "str_nat n = (if n < 10 then [digit_char n] else str_nat (n div 10) @ [digit_char (n mod 10)])"
  by pat_completeness auto
termination
  by (relation "measure (\<lambda>n. n)") auto

declare str_nat.simps [simp del]

definition str_int :: "int \<Rightarrow> string" where
  "str_int i = (if i < 0 then CHR ''-'' # str_nat (nat (- i)) else str_nat (nat i))"

text \<open>
  \<^verbatim>\<open>re.search(r"^\s*\d+\s+", line)\<close>: optional whitespace, at least one digit, at
  least one whitespace, anchored at the start. Each greedy run is followed by a
  character of another class, so taking the longest run is the only way to match.
\<close>

definition rm_result_match :: "string \<Rightarrow> bool" where
  "rm_result_match line =
     (let r = dropWhile is_space line;
          d = takeWhile is_digit r;
          r2 = dropWhile is_digit r
      in d \<noteq> [] \<and> (case r2 of [] \<Rightarrow> False | c # _ \<Rightarrow> is_space c))"

text \<open>\<^verbatim>\<open>re.search(r"^\d+", line)\<close>: the line starts with a digit.\<close>

definition trf_result_match :: "string \<Rightarrow> bool" where
  "trf_result_match line = (case line of [] \<Rightarrow> False | c # _ \<Rightarrow> is_digit c)"

text \<open>
  \<^verbatim>\<open>re.search(r"(\d+)\ - (\d+)", line)\<close>: the leftmost position at which a run of
  digits, the three characters \<open>space minus space\<close> and a second run of digits
  start; the groups are the two runs.
\<close>

definition dust_match_at :: "string \<Rightarrow> (string \<times> string) option" where
  "dust_match_at s =
     (let d1 = takeWhile is_digit s; r = dropWhile is_digit s
      in if d1 \<noteq> [] \<and> take 3 r = '' - '' \<and> takeWhile is_digit (drop 3 r) \<noteq> []
         then Some (d1, takeWhile is_digit (drop 3 r)) else None)"

fun dust_result_match :: "string \<Rightarrow> (string \<times> string) option" where
  "dust_result_match [] = None"
| "dust_result_match (c # cs) =
     (case dust_match_at (c # cs) of Some g \<Rightarrow> Some g | None \<Rightarrow> dust_result_match cs)"

section \<open>Reading a file line by line\<close>

text \<open>
  \<^verbatim>\<open>readline()\<close> returns the text up to and including the next newline, the
  unterminated rest at the end of the file, and the empty string after that. A file
  being read is the list of the lines still to come. Contents are taken after the
  newline translation of text mode, so a line ends at a line feed.
\<close>

fun lines_acc :: "string \<Rightarrow> string \<Rightarrow> string list" where
  "lines_acc cur [] = (if cur = [] then [] else [cur])"
| "lines_acc cur (c # cs) =
     (if c = newline then (cur @ [c]) # lines_acc [] cs else lines_acc (cur @ [c]) cs)"

definition file_lines :: "string \<Rightarrow> string list" where
  "file_lines content = lines_acc [] content"

fun readline :: "string list \<Rightarrow> string \<times> string list" where
  "readline [] = ([], [])"
| "readline (l # ls) = (l, ls)"

text \<open>
  One pass through the body of \<^verbatim>\<open>while line:\<close> ends in one of three ways: the
  body reaches its last statement \<^verbatim>\<open>line = f.readline()\<close>, it executes
  \<^verbatim>\<open>continue\<close> (which jumps back to the loop test without reading), or it raises.
\<close>

datatype 's iter = Completed 's | Continue | Raised py_error

text \<open>
  The loop shared by the three parse functions:
  \<^verbatim>\<open>
  line = f.readline()
  repeat_count = 1
  while line:
      <body>
      line = f.readline()
  \<close>
  The state \<open>st\<close> is what the body updates (the counter and the records written).
  The loop need not terminate, so its value is an option: \<open>None\<close> is a pass that
  never returns. A pass that raises returns the error with the state reached.
\<close>

partial_function (option) parse_loop ::
  "(string \<Rightarrow> 's \<Rightarrow> 's iter) \<Rightarrow> string \<Rightarrow> string list \<Rightarrow> 's \<Rightarrow> ((py_error + unit) \<times> 's) option"
where
  "parse_loop body line rest st =
     (if line = [] then Some (Inr (), st)
      else case body line st of
             Continue \<Rightarrow> parse_loop body line rest st
           | Raised e \<Rightarrow> Some (Inl e, st)
           | Completed st' \<Rightarrow> parse_loop body (fst (readline rest)) (snd (readline rest)) st')"

section \<open>Canonical records\<close>

text \<open>
  Every parser writes one tab-separated line per record:
  region, source, \<open>repeat\<close>, start, end, \<open>.\<close>, strand, \<open>.\<close> and the attributes
  \<^verbatim>\<open>repeat_id "n"; key "value"; ...;\<close>. The record keeps the pieces of that
  line; \<open>gtf_line\<close> is the concatenation the code performs.
\<close>

record repeat_feature =
  region_name :: string
  source :: string
  rf_start :: string
  rf_end :: string
  strand :: string
  repeat_id :: nat
  attributes :: "(string \<times> string) list"

definition attribute_text :: "string \<times> string \<Rightarrow> string" where
  "attribute_text kv = ''; '' @ fst kv @ '' '' @ [dquote] @ snd kv @ [dquote]"

definition gtf_line :: "repeat_feature \<Rightarrow> string" where
  "gtf_line r =
     region_name r @ [tab] @ source r @ [tab] @ ''repeat'' @ [tab] @ rf_start r @ [tab] @ rf_end r
     @ [tab] @ ''.'' @ [tab] @ strand r @ [tab] @ ''.'' @ [tab]
     @ ''repeat_id '' @ [dquote] @ str_nat (repeat_id r) @ [dquote]
     @ concat (map attribute_text (attributes r)) @ '';'' @ [newline]"

type_synonym parse_state = "nat \<times> repeat_feature list"

section \<open>The Masker parser\<close>

text \<open>The body of the loop of \<^verbatim>\<open>create_repeatmasker_gtf\<close> (lines 187 to 233).\<close>

definition drop_star :: "string list \<Rightarrow> string list" where
  "drop_star results = (if last results = ''*'' then butlast results else results)"

definition rm_fields :: "string \<Rightarrow> string list" where
  "rm_fields line = drop_star (split_ws line)"

definition rm_body :: "string \<Rightarrow> string \<Rightarrow> parse_state \<Rightarrow> parse_state iter" where
  "rm_body region line st =
     (case st of (repeat_count, out) \<Rightarrow>
      if rm_result_match line then
        (if split_ws line = [] then Raised IndexError
         else
           let results = rm_fields line in
           if \<not> length results = 15 then Continue
           else
             let score = results ! 0;
                 start = results ! 5;
                 end = results ! 6;
                 strand0 = results ! 8;
                 repeat_name = results ! 9;
                 repeat_class = results ! 10;
                 repeat_start = (if strand0 = ''+'' then results ! 11 else results ! 13);
                 repeat_end = results ! 12;
                 strand1 = (if strand0 = ''+'' then strand0 else ''-'')
             in Completed (repeat_count + 1,
                  out @ [\<lparr>region_name = region, source = ''RepeatMasker'',
                           rf_start = start, rf_end = end, strand = strand1,
                           repeat_id = repeat_count,
                           attributes = [(''repeat_name'', repeat_name),
                                         (''repeat_class'', repeat_class),
                                         (''repeat_start'', repeat_start),
                                         (''repeat_end'', repeat_end),
                                         (''score'', score)]\<rparr>]))
      else Completed (repeat_count, out))"

definition rm_parse :: "string \<Rightarrow> string list \<Rightarrow> ((py_error + unit) \<times> parse_state) option" where
  "rm_parse region ls = parse_loop (rm_body region) (fst (readline ls)) (snd (readline ls)) (1, [])"

section \<open>The LowComplexity parser\<close>

text \<open>The body of the loop of \<^verbatim>\<open>create_dust_gtf\<close> (lines 328 to 344).\<close>

definition dust_body :: "string \<Rightarrow> string \<Rightarrow> parse_state \<Rightarrow> parse_state iter" where
  "dust_body region line st =
     (case st of (repeat_count, out) \<Rightarrow>
      (case dust_result_match line of
        Some (g1, g2) \<Rightarrow>
          (let start = int_of_digits g1 + 1;
               end = int_of_digits g2 + 1
           in Completed (repeat_count + 1,
                out @ [\<lparr>region_name = region, source = ''Dust'',
                         rf_start = str_nat start, rf_end = str_nat end, strand = ''+'',
                         repeat_id = repeat_count, attributes = []\<rparr>]))
      | None \<Rightarrow> Completed (repeat_count, out)))"

definition dust_parse :: "string \<Rightarrow> string list \<Rightarrow> ((py_error + unit) \<times> parse_state) option" where
  "dust_parse region ls = parse_loop (dust_body region) (fst (readline ls)) (snd (readline ls)) (1, [])"

section \<open>The TandemRepeat parser\<close>

text \<open>
  \<^verbatim>\<open>float(s)\<close> and \<^verbatim>\<open>str(x)\<close> on a float belong to the interpreter, not to the
  repository; the parser takes them as parameters. A float is a finite binary
  fraction (a rational), a negative zero, an infinity or a NaN, and the only
  operations the parser applies are comparisons with the integer constants
  2, 10, 50, 70 and 80, which Python evaluates exactly; a comparison with NaN is false.
\<close>

datatype pyfloat = Finite rat | NegZero | PosInf | NegInf | NaN

fun float_lt :: "pyfloat \<Rightarrow> rat \<Rightarrow> bool" where
  "float_lt (Finite x) c = (x < c)"
| "float_lt NegZero c = (0 < c)"
| "float_lt PosInf c = False"
| "float_lt NegInf c = True"
| "float_lt NaN c = False"

fun float_gt :: "pyfloat \<Rightarrow> rat \<Rightarrow> bool" where
  "float_gt (Finite x) c = (x > c)"
| "float_gt NegZero c = (0 > c)"
| "float_gt PosInf c = True"
| "float_gt NegInf c = False"
| "float_gt NaN c = False"

fun float_ge :: "pyfloat \<Rightarrow> rat \<Rightarrow> bool" where
  "float_ge (Finite x) c = (x \<ge> c)"
| "float_ge NegZero c = (0 \<ge> c)"
| "float_ge PosInf c = True"
| "float_ge NegInf c = False"
| "float_ge NaN c = False"

record float_ops =
  py_float :: "string \<Rightarrow> pyfloat option"
  py_str :: "pyfloat \<Rightarrow> string"

definition float_of :: "float_ops \<Rightarrow> string \<Rightarrow> py_error + pyfloat" where
  "float_of F s = (case py_float F s of None \<Rightarrow> Inl (ValueError s) | Some x \<Rightarrow> Inr x)"

text \<open>The body of the loop of \<^verbatim>\<open>create_trf_gtf\<close> (lines 478 to 509).\<close>

definition trf_body :: "float_ops \<Rightarrow> string \<Rightarrow> string \<Rightarrow> parse_state \<Rightarrow> parse_state iter" where
  "trf_body F region line st =
     (case st of (repeat_count, out) \<Rightarrow>
      if trf_result_match line then
        (let results = split_ws line in
         if \<not> length results = 15 then Continue
         else
           let start = results ! 0;
               end = results ! 1
           in (case float_of F (results ! 2) of Inl e \<Rightarrow> Raised e | Inr period \<Rightarrow>
              (case float_of F (results ! 3) of Inl e \<Rightarrow> Raised e | Inr copy_number \<Rightarrow>
              (case float_of F (results ! 5) of Inl e \<Rightarrow> Raised e | Inr percent_matches \<Rightarrow>
              (case float_of F (results ! 7) of Inl e \<Rightarrow> Raised e | Inr score \<Rightarrow>
                 let repeat_consensus = results ! 13 in
                 if (float_lt score 50 \<and> float_ge percent_matches 80
                       \<and> float_gt copy_number 2 \<and> float_lt period 10)
                    \<or> (float_ge copy_number 2 \<and> float_ge percent_matches 70 \<and> float_ge score 50)
                 then Completed (repeat_count + 1,
                        out @ [\<lparr>region_name = region, source = ''TRF'',
                                 rf_start = start, rf_end = end, strand = ''+'',
                                 repeat_id = repeat_count,
                                 attributes = [(''score'', py_str F score),
                                               (''repeat_consensus'', repeat_consensus)]\<rparr>])
                 else Completed (repeat_count, out))))))
      else Completed (repeat_count, out))"

definition trf_parse ::
  "float_ops \<Rightarrow> string \<Rightarrow> string list \<Rightarrow> ((py_error + unit) \<times> parse_state) option" where
  "trf_parse F region ls =
     parse_loop (trf_body F region) (fst (readline ls)) (snd (readline ls)) (1, [])"

text \<open>
  A conversion for the examples: Python's \<^verbatim>\<open>float\<close> on a run of ASCII digits
  denoting an integer below \<open>2 ^ 53\<close> is that integer, exactly. Other strings are
  outside this stand-in.
\<close>

definition digits_float :: "string \<Rightarrow> pyfloat option" where
  "digits_float s =
     (if s \<noteq> [] \<and> list_all is_digit s then Some (Finite (of_nat (int_of_digits s))) else None)"

definition digits_str :: "pyfloat \<Rightarrow> string" where
  "digits_str x = (case x of Finite q \<Rightarrow> str_nat (nat (floor q)) @ ''.0'' | _ \<Rightarrow> ''nan'')"

definition example_floats :: float_ops where
  "example_floats = \<lparr>py_float = digits_float, py_str = digits_str\<rparr>"

section \<open>Files\<close>

text \<open>
  The file system is a map from absolute paths to the contents of the regular files.
  A path the program uses is resolved by the operating system against the working
  directory of the process at the moment of the call: an absolute path stands for
  itself, a relative one is appended to the working directory. That is what
  \<^verbatim>\<open>os.path.join\<close> computes for two components (\<open>.\<close> and \<open>..\<close> are not
  normalised, and directories are not entries of the map).
\<close>

type_synonym filesystem = "string \<rightharpoonup> string"

definition path_join :: "string \<Rightarrow> string \<Rightarrow> string" where
  "path_join a b =
     (if b \<noteq> [] \<and> hd b = CHR ''/'' then b
      else if a = [] \<or> last a = CHR ''/'' then a @ b
      else a @ ''/'' @ b)"

definition resolve :: "string \<Rightarrow> string \<Rightarrow> string" where
  "resolve dir p = path_join dir p"

text \<open>
  \<^verbatim>\<open>open(p, "r")\<close> raises \<^verbatim>\<open>FileNotFoundError\<close> when \<open>p\<close> is absent;
  \<^verbatim>\<open>open(p, "w+")\<close> creates or truncates \<open>p\<close>. Each \<^verbatim>\<open>create_*_gtf\<close> opens its
  input, then its output, runs its loop from \<^verbatim>\<open>repeat_count = 1\<close> and closes both;
  the output holds the lines written, also when the loop raised. The input is read
  after the output has been opened, so a pass whose two paths are the same file reads
  an empty file. The argument \<open>dir\<close> is the working directory of the process that
  calls the function.
\<close>

definition parse_file ::
  "(string \<Rightarrow> parse_state \<Rightarrow> parse_state iter) \<Rightarrow> string \<Rightarrow> string \<Rightarrow> string \<Rightarrow> filesystem
     \<Rightarrow> ((py_error + unit) \<times> filesystem) option" where
  "parse_file body in_path out_path dir fs =
     (case fs (resolve dir in_path) of
        None \<Rightarrow> Some (Inl (FileNotFoundError in_path), fs)
      | Some _ \<Rightarrow>
          (let fs1 = fs(resolve dir out_path \<mapsto> []);
               ls = file_lines (the (fs1 (resolve dir in_path)))
           in case parse_loop body (fst (readline ls)) (snd (readline ls)) (1, []) of
                None \<Rightarrow> None
              | Some (r, st) \<Rightarrow>
                  Some (r, fs1(resolve dir out_path \<mapsto> concat (map gtf_line (snd st))))))"

definition create_repeatmasker_gtf ::
  "string \<Rightarrow> string \<Rightarrow> string \<Rightarrow> string \<Rightarrow> filesystem
     \<Rightarrow> ((py_error + unit) \<times> filesystem) option" where
  "create_repeatmasker_gtf repeatmasker_output_file_path region_results_file_path region =
     parse_file (rm_body region) repeatmasker_output_file_path region_results_file_path"

definition create_dust_gtf ::
  "string \<Rightarrow> string \<Rightarrow> string \<Rightarrow> string \<Rightarrow> filesystem
     \<Rightarrow> ((py_error + unit) \<times> filesystem) option" where
  "create_dust_gtf dust_output_file_path region_results_file_path region =
     parse_file (dust_body region) dust_output_file_path region_results_file_path"

definition create_trf_gtf ::
  "float_ops \<Rightarrow> string \<Rightarrow> string \<Rightarrow> string \<Rightarrow> string \<Rightarrow> filesystem
     \<Rightarrow> ((py_error + unit) \<times> filesystem) option" where
  "create_trf_gtf F trf_output_file_path region_results_file_path region =
     parse_file (trf_body F region) trf_output_file_path region_results_file_path"

section \<open>The per-slice workers\<close>

text \<open>
  A worker acts on the files, on the list objects of the interpreter and on the
  working directory. List objects live in a store addressed by position, so that the
  command template a worker receives and the copy it makes are different addresses
  and a mutation of one is visible as such. Every file operation resolves its path
  against the working directory the process has at that moment.
\<close>

record world =
  files :: filesystem
  heap :: "string option list list"
  cwd :: string

type_synonym 'a io = "world \<Rightarrow> ((py_error + 'a) \<times> world) option"

definition then_io :: "'a io \<Rightarrow> ('a \<Rightarrow> 'b io) \<Rightarrow> 'b io" where
  "then_io m k w =
     (case m w of
        None \<Rightarrow> None
      | Some (Inl e, w') \<Rightarrow> Some (Inl e, w')
      | Some (Inr a, w') \<Rightarrow> k a w')"

definition in_files ::
  "(string \<Rightarrow> filesystem \<Rightarrow> ((py_error + unit) \<times> filesystem) option) \<Rightarrow> unit io" where
  "in_files f w =
     (case f (cwd w) (files w) of
        None \<Rightarrow> None
      | Some (r, fs') \<Rightarrow> Some (r, w\<lparr>files := fs'\<rparr>))"

text \<open>
  Modelled from the spec: \<^verbatim>\<open>get_sequence\<close> is not in the source file; the spec
  gives \<^verbatim>\<open>get_sequence(region, start, end, strand, genome_file, workdir) -> string\<close>.
  The external tool is opaque: \<^verbatim>\<open>subprocess.run(argv)\<close>, started in the working
  directory of the worker, either fails to start or changes the files and prints to
  its standard output.
\<close>

record externals =
  get_sequence :: "string \<Rightarrow> int \<Rightarrow> int \<Rightarrow> int \<Rightarrow> string \<Rightarrow> string \<Rightarrow> string"
  subprocess_run :: "string list \<Rightarrow> string \<Rightarrow> filesystem \<Rightarrow> py_error + (filesystem \<times> string)"

definition write_file :: "string \<Rightarrow> string \<Rightarrow> world \<Rightarrow> world" where
  "write_file p content w = w\<lparr>files := (files w)(resolve (cwd w) p \<mapsto> content)\<rparr>"

definition os_remove :: "string \<Rightarrow> unit io" where
  "os_remove p w =
     (if files w (resolve (cwd w) p) = None then Some (Inl (FileNotFoundError p), w)
      else Some (Inr (), w\<lparr>files := (files w)(resolve (cwd w) p := None)\<rparr>))"

text \<open>\<^verbatim>\<open>if os.path.exists(p): os.remove(p)\<close>\<close>

definition remove_if_exists :: "string \<Rightarrow> world \<Rightarrow> world" where
  "remove_if_exists p w =
     (if files w (resolve (cwd w) p) \<noteq> None
      then w\<lparr>files := (files w)(resolve (cwd w) p := None)\<rparr> else w)"

text \<open>\<^verbatim>\<open>os.chdir(d)\<close>\<close>

definition os_chdir :: "string \<Rightarrow> world \<Rightarrow> world" where
  "os_chdir d w = w\<lparr>cwd := resolve (cwd w) d\<rparr>"

text \<open>\<^verbatim>\<open>xs.copy()\<close>, \<^verbatim>\<open>xs.append(v)\<close> and \<^verbatim>\<open>xs[i] = v\<close> on the store.\<close>

definition list_copy :: "nat \<Rightarrow> world \<Rightarrow> nat \<times> world" where
  "list_copy r w = (length (heap w), w\<lparr>heap := heap w @ [heap w ! r]\<rparr>)"

definition list_append :: "nat \<Rightarrow> string option \<Rightarrow> world \<Rightarrow> world" where
  "list_append r v w = w\<lparr>heap := (heap w)[r := heap w ! r @ [v]]\<rparr>"

definition list_set :: "nat \<Rightarrow> nat \<Rightarrow> string option \<Rightarrow> unit io" where
  "list_set r i v w =
     (if i < length (heap w ! r) then Some (Inr (), w\<lparr>heap := (heap w)[r := (heap w ! r)[i := v]]\<rparr>)
      else Some (Inl IndexError, w))"

text \<open>
  \<^verbatim>\<open>logger.info(" ".join(cmd))\<close> followed by \<^verbatim>\<open>subprocess.run(cmd)\<close>: the join
  raises \<^verbatim>\<open>TypeError\<close> when an element is \<^verbatim>\<open>None\<close>. The value is what the tool
  printed.
\<close>

fun cmd_strings :: "string option list \<Rightarrow> py_error + string list" where
  "cmd_strings [] = Inr []"
| "cmd_strings (None # xs) = Inl TypeError"
| "cmd_strings (Some x # xs) = (case cmd_strings xs of Inl e \<Rightarrow> Inl e | Inr ys \<Rightarrow> Inr (x # ys))"

definition run_cmd :: "externals \<Rightarrow> nat \<Rightarrow> string io" where
  "run_cmd X r w =
     (case cmd_strings (heap w ! r) of
        Inl e \<Rightarrow> Some (Inl e, w)
      | Inr argv \<Rightarrow>
          (case subprocess_run X argv (cwd w) (files w) of
             Inl e \<Rightarrow> Some (Inl e, w)
           | Inr (fs', printed) \<Rightarrow> Some (Inr printed, w\<lparr>files := fs'\<rparr>)))"

definition slice_file_name :: "string \<times> int \<times> int \<Rightarrow> string" where
  "slice_file_name slice_id =
     (case slice_id of (region, start, end) \<Rightarrow>
        region @ ''.rs'' @ str_int start @ ''.re'' @ str_int end)"

definition fasta_text :: "string \<Rightarrow> string \<Rightarrow> string" where
  "fasta_text region seq = ''>'' @ region @ [newline] @ seq @ [newline]"

text \<open>\<^verbatim>\<open>multiprocess_repeatmasker\<close> (lines 122 to 175).\<close>

definition multiprocess_repeatmasker ::
  "externals \<Rightarrow> nat \<Rightarrow> string \<times> int \<times> int \<Rightarrow> string \<Rightarrow> string \<Rightarrow> unit io" where
  "multiprocess_repeatmasker X generic_repeatmasker_cmd slice_id genome_file repeatmasker_output_dir w0 =
     (case slice_id of (region, start, end) \<Rightarrow>
      let seq = get_sequence X region start end 1 genome_file repeatmasker_output_dir;
          region_fasta_file_name = slice_file_name slice_id @ ''.fa'';
          region_fasta_file_path = path_join repeatmasker_output_dir region_fasta_file_name;
          w1 = write_file region_fasta_file_path (fasta_text region seq) w0;
          region_results_file_path = region_fasta_file_path @ ''.rm.gtf'';
          repeatmasker_output_file_path = region_fasta_file_path @ ''.out'';
          repeatmasker_masked_file_path = region_fasta_file_path @ ''.masked'';
          repeatmasker_tbl_file_path = region_fasta_file_path @ ''.tbl'';
          repeatmasker_log_file_path = region_fasta_file_path @ ''.log'';
          repeatmasker_cat_file_path = region_fasta_file_path @ ''.cat'';
          repeatmasker_cmd = fst (list_copy generic_repeatmasker_cmd w1);
          w2 = snd (list_copy generic_repeatmasker_cmd w1);
          w3 = list_append repeatmasker_cmd (Some region_fasta_file_path) w2
      in then_io (run_cmd X repeatmasker_cmd) (\<lambda>_.
         then_io (in_files (create_repeatmasker_gtf repeatmasker_output_file_path
                              region_results_file_path region)) (\<lambda>_.
         then_io (os_remove region_fasta_file_path) (\<lambda>_ w.
           Some (Inr (),
             remove_if_exists repeatmasker_cat_file_path
               (remove_if_exists repeatmasker_log_file_path
                 (remove_if_exists repeatmasker_tbl_file_path
                   (remove_if_exists repeatmasker_masked_file_path
                     (remove_if_exists region_results_file_path w)))))))) w3)"

text \<open>
  \<^verbatim>\<open>multiprocess_dust\<close> (lines 282 to 318). The raw output file is opened for
  writing before the tool starts and receives what the tool prints.
\<close>

definition multiprocess_dust ::
  "externals \<Rightarrow> nat \<Rightarrow> string \<times> int \<times> int \<Rightarrow> string \<Rightarrow> string \<Rightarrow> unit io" where
  "multiprocess_dust X generic_dust_cmd slice_id genome_file dust_output_dir w0 =
     (case slice_id of (region, start, end) \<Rightarrow>
      let seq = get_sequence X region start end 1 genome_file dust_output_dir;
          region_fasta_file_name = slice_file_name slice_id @ ''.fa'';
          region_fasta_file_path = path_join dust_output_dir region_fasta_file_name;
          w1 = write_file region_fasta_file_path (fasta_text region seq) w0;
          region_results_file_name = slice_file_name slice_id @ ''.dust.gtf'';
          region_results_file_path = path_join dust_output_dir region_results_file_name;
          dust_output_file_path = region_fasta_file_path @ ''.dust'';
          w2 = write_file dust_output_file_path [] w1;
          dust_cmd = fst (list_copy generic_dust_cmd w2);
          w3 = snd (list_copy generic_dust_cmd w2);
          w4 = list_append dust_cmd (Some region_fasta_file_path) w3
      in then_io (run_cmd X dust_cmd) (\<lambda>printed.
         then_io (\<lambda>w. Some (Inr (), write_file dust_output_file_path printed w)) (\<lambda>_.
         then_io (in_files (create_dust_gtf dust_output_file_path region_results_file_path region)) (\<lambda>_.
         then_io (os_remove dust_output_file_path) (\<lambda>_.
         os_remove region_fasta_file_path)))) w4)"

text \<open>
  \<^verbatim>\<open>multiprocess_trf\<close> (lines 431 to 468). It writes the input sequence file,
  then changes into the output directory (line 460); the paths it uses afterwards
  are resolved there.
\<close>

definition multiprocess_trf ::
  "float_ops \<Rightarrow> externals \<Rightarrow> nat \<Rightarrow> string \<times> int \<times> int \<Rightarrow> string \<Rightarrow> string \<Rightarrow> string \<Rightarrow> unit io" where
  "multiprocess_trf F X generic_trf_cmd slice_id genome_file trf_output_dir trf_output_extension w0 =
     (case slice_id of (region, start, end) \<Rightarrow>
      let seq = get_sequence X region start end 1 genome_file trf_output_dir;
          region_fasta_file_name = slice_file_name slice_id @ ''.fa'';
          region_fasta_file_path = path_join trf_output_dir region_fasta_file_name;
          w1 = write_file region_fasta_file_path (fasta_text region seq) w0;
          region_results_file_name = slice_file_name slice_id @ ''.trf.gtf'';
          region_results_file_path = path_join trf_output_dir region_results_file_name;
          w2 = os_chdir trf_output_dir w1;
          trf_output_file_path = region_fasta_file_path @ trf_output_extension;
          trf_cmd = fst (list_copy generic_trf_cmd w2);
          w3 = snd (list_copy generic_trf_cmd w2)
      in then_io (list_set trf_cmd 1 (Some region_fasta_file_path)) (\<lambda>_.
         then_io (run_cmd X trf_cmd) (\<lambda>_.
         then_io (in_files (create_trf_gtf F trf_output_file_path region_results_file_path region)) (\<lambda>_.
         then_io (os_remove trf_output_file_path) (\<lambda>_.
         os_remove region_fasta_file_path)))) w3)"

section \<open>The entry points\<close>

text \<open>
  Modelled from the spec: \<^verbatim>\<open>check_exe\<close>, \<^verbatim>\<open>create_dir\<close>,
  \<^verbatim>\<open>check_gtf_content\<close>, \<^verbatim>\<open>get_seq_region_lengths\<close>, \<^verbatim>\<open>create_slice_ids\<close>
  and \<^verbatim>\<open>slice_output_to_gtf\<close> are called by the source file and defined elsewhere.
  The spec gives their interfaces: \<^verbatim>\<open>check_exe(path)\<close> fails fast when the tool is
  not executable, \<^verbatim>\<open>create_dir(base, name) -> path\<close>,
  \<^verbatim>\<open>check_gtf_content(file, feature_type) -> count\<close>,
  \<^verbatim>\<open>get_seq_region_lengths(genome_file, min_length) -> ordered mapping\<close>.
  They are parameters here, and an entry point is described by its outcome and the
  sequence of calls it makes to them and to the worker pool. The workers run in other
  processes; a dispatch is recorded with the arguments it passes.
  \<^verbatim>\<open>check_gtf_content\<close> and \<^verbatim>\<open>get_seq_region_lengths\<close> read a file: they are
  given the file system and the absolute path that their argument denotes in the
  working directory of the caller. An entry point starts in the working directory
  \<open>cwd0\<close>.
\<close>

record collaborators =
  check_exe :: "string \<Rightarrow> bool"
  create_dir :: "string \<Rightarrow> string \<Rightarrow> string"
  check_gtf_content :: "filesystem \<Rightarrow> string \<Rightarrow> string \<Rightarrow> int"
  get_seq_region_lengths :: "filesystem \<Rightarrow> string \<Rightarrow> int \<Rightarrow> (string \<times> int) list"
  create_slice_ids :: "(string \<times> int) list \<Rightarrow> int \<Rightarrow> int \<Rightarrow> int \<Rightarrow> (string \<times> int \<times> int) list"

datatype task =
    RepeatmaskerTask "string option list" "string \<times> int \<times> int" string string
  | DustTask "string option list" "string \<times> int \<times> int" string string
  | TrfTask "string option list" "string \<times> int \<times> int" string string string

datatype event =
    CheckExe string
  | CreateDir string string
  | Chdir string
  | CheckGtfContent string string
  | GetSeqRegionLengths string int
  | CreateSliceIds int int int
  | NewPool int
  | ApplyAsync task
  | PoolCloseJoin
  | SliceOutputToGtf string string int string string

text \<open>\<^verbatim>\<open>not x\<close> for an argument that is \<^verbatim>\<open>None\<close> or a string.\<close>

definition falsy :: "string option \<Rightarrow> bool" where
  "falsy x = (x = None \<or> x = Some [])"

text \<open>
  The part the three entry points share after the resume check: slices, pool, one
  dispatch per slice, join, merge. \<^verbatim>\<open>multiprocessing.Pool(n)\<close> raises
  \<^verbatim>\<open>ValueError\<close> for \<open>n < 1\<close>.
\<close>

definition dispatch_all ::
  "collaborators \<Rightarrow> filesystem \<Rightarrow> string \<Rightarrow> string \<Rightarrow> int \<Rightarrow> (string \<times> int \<times> int \<Rightarrow> task)
     \<Rightarrow> event list \<Rightarrow> (py_error + int option) \<times> event list" where
  "dispatch_all K fs dir genome_file num_threads mk_task merge =
     (let seq_region_lengths = get_seq_region_lengths K fs (resolve dir genome_file) 5000;
          slice_ids = create_slice_ids K seq_region_lengths 1000000 0 5000;
          slicing = [GetSeqRegionLengths genome_file 5000, CreateSliceIds 1000000 0 5000]
      in if num_threads < 1 then (Inl (ValueError ''Number of processes must be at least 1''), slicing)
         else (Inr None,
               slicing @ [NewPool num_threads] @ map (\<lambda>slice_id. ApplyAsync (mk_task slice_id)) slice_ids
               @ [PoolCloseJoin] @ merge))"

definition prepend :: "event list \<Rightarrow> (py_error + int option) \<times> event list
     \<Rightarrow> (py_error + int option) \<times> event list" where
  "prepend es r = (fst r, es @ snd r)"

text \<open>
  \<^verbatim>\<open>run_repeatmasker_regions\<close> (lines 36 to 119). It changes into the output
  directory (line 48) before it looks for \<^verbatim>\<open>annotation.gtf\<close> (line 52), so every
  later path is resolved in that directory.
\<close>

definition run_repeatmasker_regions ::
  "collaborators \<Rightarrow> filesystem \<Rightarrow> string \<Rightarrow> string \<Rightarrow> string option \<Rightarrow> string option
     \<Rightarrow> string option \<Rightarrow> string \<Rightarrow> int \<Rightarrow> (py_error + int option) \<times> event list" where
  "run_repeatmasker_regions K fs cwd0 genome_file repeatmasker_path0 library0 species0 main_output_dir num_threads =
     (let repeatmasker_path = (if falsy repeatmasker_path0 then ''RepeatMasker'' else the repeatmasker_path0);
          library = (if falsy library0 then Some ''homo'' else library0)
      in if \<not> check_exe K repeatmasker_path then (Inl SystemExit, [CheckExe repeatmasker_path])
         else
           let repeatmasker_output_dir = create_dir K main_output_dir ''repeatmasker_output'';
               cwd1 = resolve cwd0 repeatmasker_output_dir;
               output_file = path_join repeatmasker_output_dir ''annotation.gtf'';
               entry = [CheckExe repeatmasker_path, CreateDir main_output_dir ''repeatmasker_output'',
                        Chdir repeatmasker_output_dir]
           in if fs (resolve cwd1 output_file) \<noteq> None
                 \<and> check_gtf_content K fs (resolve cwd1 output_file) ''repeat'' > 0
              then (Inr None, entry @ [CheckGtfContent output_file ''repeat''])
              else
                let checked = (if fs (resolve cwd1 output_file) \<noteq> None
                               then [CheckGtfContent output_file ''repeat''] else []);
                    generic_repeatmasker_cmd =
                      (if falsy library then
                         (if falsy species0 then
                            [Some repeatmasker_path, Some ''-nolow'', Some ''-species'', Some ''homo'',
                             Some ''-engine'', Some ''crossmatch'', Some ''-dir'', Some repeatmasker_output_dir]
                          else
                            [Some repeatmasker_path, Some ''-nolow'', Some ''-species'', species0,
                             Some ''-engine'', Some ''crossmatch'', Some ''-dir'', Some repeatmasker_output_dir])
                       else
                         [Some repeatmasker_path, Some ''-nolow'', Some ''-lib'', library,
                          Some ''-engine'', Some ''crossmatch'', Some ''-dir'', Some repeatmasker_output_dir])
                in prepend (entry @ checked)
                     (dispatch_all K fs cwd1 genome_file num_threads
                        (\<lambda>slice_id. RepeatmaskerTask generic_repeatmasker_cmd slice_id genome_file
                                      repeatmasker_output_dir)
                        [SliceOutputToGtf repeatmasker_output_dir ''.rm.gtf'' 1 ''repeat_id'' ''repeatmask'']))"

text \<open>\<^verbatim>\<open>run_dust_regions\<close> (lines 239 to 279); it returns \<open>0\<close> when it skips.\<close>

definition run_dust_regions ::
  "collaborators \<Rightarrow> filesystem \<Rightarrow> string \<Rightarrow> string \<Rightarrow> string option \<Rightarrow> string \<Rightarrow> int
     \<Rightarrow> (py_error + int option) \<times> event list" where
  "run_dust_regions K fs cwd0 genome_file dust_path0 main_output_dir num_threads =
     (let dust_path = (if falsy dust_path0 then ''dustmasker'' else the dust_path0)
      in if \<not> check_exe K dust_path then (Inl SystemExit, [CheckExe dust_path])
         else
           let dust_output_dir = create_dir K main_output_dir ''dust_output'';
               output_file = path_join dust_output_dir ''annotation.gtf'';
               entry = [CheckExe dust_path, CreateDir main_output_dir ''dust_output'']
           in if fs (resolve cwd0 output_file) \<noteq> None
                 \<and> check_gtf_content K fs (resolve cwd0 output_file) ''repeat'' > 0
              then (Inr (Some 0), entry @ [CheckGtfContent output_file ''repeat''])
              else
                let checked = (if fs (resolve cwd0 output_file) \<noteq> None
                               then [CheckGtfContent output_file ''repeat''] else []);
                    generic_dust_cmd = [Some dust_path, Some ''-in'']
                in prepend (entry @ checked)
                     (dispatch_all K fs cwd0 genome_file num_threads
                        (\<lambda>slice_id. DustTask generic_dust_cmd slice_id genome_file dust_output_dir)
                        [SliceOutputToGtf dust_output_dir ''.dust.gtf'' 1 ''repeat_id'' ''dust'']))"


section \<open>Example inputs\<close>

text \<open>
  Raw output lines in the two tools' formats, and stand-ins for the collaborators,
  used to run the definitions above.
\<close>

definition masker_line_plus :: string where
  "masker_line_plus = '' 463 1.3 0.6 1.7 chr1 100 200 (5000) + AluSx SINE/Alu 1 300 (12) 7'' @ [newline]"

definition masker_line_minus :: string where
  "masker_line_minus = '' 463 1.3 0.6 1.7 chr1 100 200 (5000) C AluSx SINE/Alu (12) 300 1 7'' @ [newline]"

definition masker_line_truncated :: string where
  "masker_line_truncated = '' 463 1.3 0.6 1.7 chr1 100 200 (5000) + AluSx SINE/Alu 1 300 (12)''"

definition trf_line_period8 :: string where
  "trf_line_period8 = ''100 150 8 3 8 85 0 45 25 25 25 25 2 ACGTACGT ACGTACGTACGTACGTACGTACGT'' @ [newline]"

definition trf_line_period12 :: string where
  "trf_line_period12 = ''100 150 12 3 8 85 0 45 25 25 25 25 2 ACGTACGT ACGTACGTACGTACGTACGTACGT'' @ [newline]"

definition trf_line_truncated :: string where
  "trf_line_truncated = ''100 150 8 3 8 85 0 45 25 25 25 25 2 ACGTACGT''"

text \<open>A masker that writes one hit and a masked sequence next to its input, the last argument.\<close>

definition example_masker :: "string list \<Rightarrow> string \<Rightarrow> filesystem \<Rightarrow> py_error + (filesystem \<times> string)" where
  "example_masker argv dir fs =
     Inr (fs(resolve dir (last argv @ ''.out'') \<mapsto> masker_line_plus,
             resolve dir (last argv @ ''.masked'') \<mapsto> ''NNNN''), [])"

definition example_sequence :: "string \<Rightarrow> int \<Rightarrow> int \<Rightarrow> int \<Rightarrow> string \<Rightarrow> string \<Rightarrow> string" where
  "example_sequence region start end strand_flag genome_file workdir = ''ACGT''"

definition example_externals :: externals where
  "example_externals = \<lparr>get_sequence = example_sequence, subprocess_run = example_masker\<rparr>"

text \<open>A tool that fails: it prints nothing and leaves the files as they are.\<close>

definition failing_tool :: "string list \<Rightarrow> string \<Rightarrow> filesystem \<Rightarrow> py_error + (filesystem \<times> string)" where
  "failing_tool argv dir fs = Inr (fs, [])"

definition failing_externals :: externals where
  "failing_externals = \<lparr>get_sequence = example_sequence, subprocess_run = failing_tool\<rparr>"

definition example_world :: world where
  "example_world = \<lparr>files = map_of [], heap = [[Some ''RepeatMasker'', Some ''-nolow'']], cwd = ''/''\<rparr>"

definition example_trf_world :: world where
  "example_trf_world =
     \<lparr>files = map_of [],
      heap = [[Some ''trf'', None, Some ''2'', Some ''5'', Some ''7'', Some ''80'', Some ''10'',
               Some ''40'', Some ''500'', Some ''-d'', Some ''-h'']],
      cwd = ''/''\<rparr>"

definition example_check_exe :: "string \<Rightarrow> bool" where
  "example_check_exe p = True"

definition example_check_gtf_content :: "filesystem \<Rightarrow> string \<Rightarrow> string \<Rightarrow> int" where
  "example_check_gtf_content fs p feature_type =
     int (length (filter (\<lambda>l. feature_type \<in> set (split_ws l)) (file_lines (the (fs p)))))"

definition example_lengths :: "filesystem \<Rightarrow> string \<Rightarrow> int \<Rightarrow> (string \<times> int) list" where
  "example_lengths fs genome_file min_length = [(''chr1'', 6000)]"

definition example_slices :: "(string \<times> int) list \<Rightarrow> int \<Rightarrow> int \<Rightarrow> int \<Rightarrow> (string \<times> int \<times> int) list" where
  "example_slices lengths slice_size overlap min_length = map (\<lambda>(r, n). (r, 0, n)) lengths"

definition example_collaborators :: collaborators where
  "example_collaborators =
     \<lparr>check_exe = example_check_exe, create_dir = path_join,
      check_gtf_content = example_check_gtf_content,
      get_seq_region_lengths = example_lengths, create_slice_ids = example_slices\<rparr>"

definition example_gtf :: string where
  "example_gtf = ''chr1'' @ [tab] @ ''Dust'' @ [tab] @ ''repeat'' @ [tab] @ ''13'' @ [tab] @ ''46'' @ [newline]"

definition example_outputs :: filesystem where
  "example_outputs =
     map_of [(''/data/out/repeatmasker_output/annotation.gtf'', example_gtf),
             (''/data/out/dust_output/annotation.gtf'', example_gtf),
             (''/data/out/trf_output/annotation.gtf'', example_gtf)]"

text \<open>
  Files named \<^verbatim>\<open>annotation.gtf\<close> under \<open>/work/out\<close>, the place that the relative
  output directory \<open>out\<close> names from the directory \<open>/work\<close>.
\<close>

definition example_relative_outputs :: filesystem where
  "example_relative_outputs =
     map_of [(''/work/out/repeatmasker_output/annotation.gtf'', example_gtf),
             (''/work/out/dust_output/annotation.gtf'', example_gtf),
             (''/work/out/trf_output/annotation.gtf'', example_gtf)]"

section \<open>The counter invariant\<close>

text \<open>
  The state of a pass is the counter and the records written so far. The counter is
  one more than the number of records, and the records carry the numbers from 1 up.
\<close>

definition ids_from_one :: "parse_state \<Rightarrow> bool" where
  "ids_from_one st = (map repeat_id (snd st) = [1..<fst st] \<and> fst st = Suc (length (snd st)))"

section \<open>List objects a step leaves alone\<close>

text \<open>
  A step keeps the list object at address \<open>a\<close> when, whatever it returns, the object
  is still there with the elements it had.
\<close>

definition keeps_list :: "nat \<Rightarrow> 'a io \<Rightarrow> bool" where
  "keeps_list a m =
     (\<forall>w r w'. m w = Some (r, w') \<and> a < length (heap w)
        \<longrightarrow> a < length (heap w') \<and> heap w' ! a = heap w ! a)"

section \<open>Properties of the parse loop\<close>

lemma parse_loop_continue:
  assumes "line \<noteq> []" and "body line st = Continue"
  shows "parse_loop body line rest st = None"
proof (rule ccontr)
  assume "parse_loop body line rest st \<noteq> None"
  then obtain y where y: "parse_loop body line rest st = Some y" by auto
  have "\<not> (line \<noteq> [] \<and> body line st = Continue)"
  proof (rule parse_loop.raw_induct [where P = "\<lambda>b l r s z. \<not> (l \<noteq> [] \<and> b l s = Continue)", OF _ y])
    fix f :: "(string \<Rightarrow> 'a \<Rightarrow> 'a iter) \<Rightarrow> string \<Rightarrow> string list \<Rightarrow> 'a \<Rightarrow> ((py_error + unit) \<times> 'a) option"
      and b l r s z
    assume ih: "\<And>b l r s z. f b l r s = Some z \<Longrightarrow> \<not> (l \<noteq> [] \<and> b l s = Continue)"
      and eq: "(if l = [] then Some (Inr (), s)
                else case b l s of Completed st' \<Rightarrow> f b (fst (readline r)) (snd (readline r)) st'
                     | Continue \<Rightarrow> f b l r s | Raised e \<Rightarrow> Some (Inl e, s)) = Some z"
    show "\<not> (l \<noteq> [] \<and> b l s = Continue)"
    proof
      assume c: "l \<noteq> [] \<and> b l s = Continue"
      with eq have "f b l r s = Some z" by simp
      from ih [OF this] c show False by simp
    qed
  qed
  with assms show False by simp
qed

lemma parse_loop_completed:
  "line \<noteq> [] \<Longrightarrow> body line st = Completed st' \<Longrightarrow>
   parse_loop body line rest st = parse_loop body (fst (readline rest)) (snd (readline rest)) st'"
  by (subst parse_loop.simps) simp

lemma parse_loop_eof: "parse_loop body [] rest st = Some (Inr (), st)"
  by (subst parse_loop.simps) simp

lemma parse_loop_raised:
  "line \<noteq> [] \<Longrightarrow> body line st = Raised e \<Longrightarrow> parse_loop body line rest st = Some (Inl e, st)"
  by (subst parse_loop.simps) simp

text \<open>A pass returns when no line it reaches makes the body continue.\<close>
lemma parse_loop_returns:
  assumes "\<And>l s. l \<in> set ls \<Longrightarrow> body l s \<noteq> Continue"
  shows "\<exists>r. parse_loop body (fst (readline ls)) (snd (readline ls)) st = Some r"
  using assms
proof (induction ls arbitrary: st)
  case Nil
  show ?case by (simp add: parse_loop_eof)
next
  case (Cons l ls)
  show ?case
  proof (cases "l = []")
    case True
    then show ?thesis by (simp add: parse_loop_eof)
  next
    case False
    show ?thesis
    proof (cases "body l st")
      case (Completed st')
      have "\<exists>r. parse_loop body (fst (readline ls)) (snd (readline ls)) st' = Some r"
        using Cons.IH Cons.prems by simp
      with False Completed show ?thesis by (simp add: parse_loop_completed)
    next
      case Continue
      with Cons.prems [of l st] show ?thesis by simp
    next
      case (Raised e)
      with False show ?thesis by (simp add: parse_loop_raised)
    qed
  qed
qed

text \<open>An invariant of the state that every completed body keeps holds when the pass returns.\<close>
lemma parse_loop_invariant:
  assumes step: "\<And>l s s'. I s \<Longrightarrow> body l s = Completed s' \<Longrightarrow> I s'"
    and ret: "parse_loop body line rest st = Some (r, st')"
    and init: "I st"
  shows "I st'"
proof -
  have "I st \<longrightarrow> I (snd (r, st'))"
  proof (rule parse_loop.raw_induct [where P = "\<lambda>b l r s z. b = body \<longrightarrow> I s \<longrightarrow> I (snd z)" and body = body, OF _ ret, THEN mp, OF _ refl])
    fix f b l r s z
    assume ih: "\<And>b l r s z. f b l r s = Some z \<Longrightarrow> b = body \<longrightarrow> I s \<longrightarrow> I (snd z)"
      and eq: "(if l = [] then Some (Inr (), s)
                else case b l s of Completed st' \<Rightarrow> f b (fst (readline r)) (snd (readline r)) st'
                     | Continue \<Rightarrow> f b l r s | Raised e \<Rightarrow> Some (Inl e, s)) = Some z"
    show "b = body \<longrightarrow> I s \<longrightarrow> I (snd z)"
    proof (intro impI)
      assume b: "b = body" and s: "I s"
      show "I (snd z)"
      proof (cases "l = []")
        case True with eq s show ?thesis by auto
      next
        case False
        show ?thesis
        proof (cases "b l s")
          case (Completed s1)
          with eq False have "f b (fst (readline r)) (snd (readline r)) s1 = Some z" by simp
          moreover have "I s1" using step s Completed b by blast
          ultimately show ?thesis using ih b by blast
        next
          case Continue
          with eq False have "f b l r s = Some z" by simp
          then show ?thesis using ih b s by blast
        next
          case (Raised e)
          with eq False s show ?thesis by auto
        qed
      qed
    qed
  qed
  with init show ?thesis by simp
qed

section \<open>Decimal numerals\<close>

text \<open>\<open>str_nat\<close> writes a number in decimal digits, and \<open>int_of_digits\<close> reads it back.\<close>

lemma digit_val_digit_char: "d < 10 \<Longrightarrow> digit_val (digit_char d) = d"
proof -
  assume "d < 10"
  then consider "d = 0" | "d = 1" | "d = 2" | "d = 3" | "d = 4" | "d = 5" | "d = 6" | "d = 7"
    | "d = 8" | "d = 9" by (auto simp: less_Suc_eq numeral_eq_Suc)
  then show ?thesis
    by cases (simp_all add: digit_val_def digit_char_def)
qed

lemma int_of_digits_snoc: "int_of_digits (s @ [c]) = 10 * int_of_digits s + digit_val c"
  by (simp add: int_of_digits_def)

lemma int_of_digits_str_nat: "int_of_digits (str_nat n) = n"
proof (induction n rule: str_nat.induct)
  case (1 n)
  show ?case
  proof (cases "n < 10")
    case True
    then show ?thesis
      by (subst str_nat.simps) (simp add: int_of_digits_def digit_val_digit_char)
  next
    case False
    then have "int_of_digits (str_nat (n div 10)) = n div 10" using "1.IH" by simp
    with False show ?thesis
      by (subst str_nat.simps) (simp add: int_of_digits_snoc digit_val_digit_char)
  qed
qed

lemma str_nat_digits: "\<forall>c \<in> set (str_nat n). is_digit c"
proof (induction n rule: str_nat.induct)
  case (1 n)
  have d: "is_digit (digit_char d)" if "d < 10" for d
  proof -
    from that consider "d = 0" | "d = 1" | "d = 2" | "d = 3" | "d = 4" | "d = 5" | "d = 6" | "d = 7"
      | "d = 8" | "d = 9" by (auto simp: less_Suc_eq numeral_eq_Suc)
    then show ?thesis by cases (simp_all add: is_digit_def digit_char_def)
  qed
  show ?case
  proof (cases "n < 10")
    case True
    then show ?thesis by (subst str_nat.simps) (simp add: d)
  next
    case False
    with "1.IH" show ?thesis by (subst str_nat.simps) (simp add: d)
  qed
qed

section \<open>The example lines, evaluated\<close>

lemma masker_fields_plus:
  "rm_fields masker_line_plus =
     [''463'', ''1.3'', ''0.6'', ''1.7'', ''chr1'', ''100'', ''200'', ''(5000)'', ''+'',
      ''AluSx'', ''SINE/Alu'', ''1'', ''300'', ''(12)'', ''7'']"
  by (simp add: rm_fields_def masker_line_plus_def split_ws_def is_space_def drop_star_def newline_def)

lemma masker_fields_minus:
  "rm_fields masker_line_minus =
     [''463'', ''1.3'', ''0.6'', ''1.7'', ''chr1'', ''100'', ''200'', ''(5000)'', ''C'',
      ''AluSx'', ''SINE/Alu'', ''(12)'', ''300'', ''1'', ''7'']"
  by (simp add: rm_fields_def masker_line_minus_def split_ws_def is_space_def drop_star_def newline_def)

lemma masker_fields_truncated: "length (rm_fields masker_line_truncated) = 14"
  by (simp add: rm_fields_def masker_line_truncated_def split_ws_def is_space_def drop_star_def)

lemma masker_lines_match:
  "rm_result_match masker_line_plus" "rm_result_match masker_line_minus"
  "rm_result_match masker_line_truncated"
  by (simp_all add: rm_result_match_def masker_line_plus_def masker_line_minus_def
        masker_line_truncated_def is_space_def is_digit_def)

lemma trf_fields_period8:
  "split_ws trf_line_period8 =
     [''100'', ''150'', ''8'', ''3'', ''8'', ''85'', ''0'', ''45'', ''25'', ''25'', ''25'', ''25'',
      ''2'', ''ACGTACGT'', ''ACGTACGTACGTACGTACGTACGT'']"
  by (simp add: trf_line_period8_def split_ws_def is_space_def newline_def)

lemma trf_fields_period12:
  "split_ws trf_line_period12 =
     [''100'', ''150'', ''12'', ''3'', ''8'', ''85'', ''0'', ''45'', ''25'', ''25'', ''25'', ''25'',
      ''2'', ''ACGTACGT'', ''ACGTACGTACGTACGTACGTACGT'']"
  by (simp add: trf_line_period12_def split_ws_def is_space_def newline_def)

lemma trf_fields_truncated: "length (split_ws trf_line_truncated) = 14"
  by (simp add: trf_line_truncated_def split_ws_def is_space_def)

lemma trf_lines_match:
  "trf_result_match trf_line_period8" "trf_result_match trf_line_period12"
  "trf_result_match trf_line_truncated"
  by (simp_all add: trf_result_match_def trf_line_period8_def trf_line_period12_def
        trf_line_truncated_def is_digit_def)

lemma example_floats_values:
  "py_float example_floats ''8'' = Some (Finite 8)"
  "py_float example_floats ''12'' = Some (Finite 12)"
  "py_float example_floats ''3'' = Some (Finite 3)"
  "py_float example_floats ''85'' = Some (Finite 85)"
  "py_float example_floats ''45'' = Some (Finite 45)"
  by (simp_all add: example_floats_def digits_float_def is_digit_def int_of_digits_def digit_val_def)

lemma example_floats_str: "py_str example_floats (Finite 45) = ''45.0''"
  by (simp add: example_floats_def digits_str_def str_nat.simps digit_char_def)

section \<open>The parsers, line by line\<close>

text \<open>
  Claim C5. In the Masker parser, every accepted line (a candidate whose fields, after
  a trailing \<open>*\<close> is dropped, number 15) yields one record. When field 8 (0-indexed)
  is \<open>+\<close> the record has strand \<open>+\<close> and takes \<open>repeat_start\<close> and \<open>repeat_end\<close>
  from positions 11 and 12; for any other value the strand is \<open>-\<close> and they come from
  positions 13 and 12.
\<close>

theorem C5_masker_strand_selection:
  assumes "rm_result_match line" and "rm_fields line = results" and "length results = 15"
  shows "\<exists>r. rm_body region line (n, out) = Completed (n + 1, out @ [r])
           \<and> repeat_id r = n
           \<and> (results ! 8 = ''+'' \<longrightarrow>
                strand r = ''+''
                \<and> map_of (attributes r) ''repeat_start'' = Some (results ! 11)
                \<and> map_of (attributes r) ''repeat_end'' = Some (results ! 12))
           \<and> (results ! 8 \<noteq> ''+'' \<longrightarrow>
                strand r = ''-''
                \<and> map_of (attributes r) ''repeat_start'' = Some (results ! 13)
                \<and> map_of (attributes r) ''repeat_end'' = Some (results ! 12))"
proof -
  have "split_ws line \<noteq> []"
    using assms by (auto simp: rm_fields_def drop_star_def split: if_splits)
  then show ?thesis
    using assms by (simp add: rm_body_def Let_def)
qed

text \<open>
  The two example lines of the Masker format, forward and complement, run through the
  theorem.
\<close>

theorem C5_masker_strand_selection_witness:
  "(\<exists>r. rm_body ''chr1'' masker_line_plus (1, []) = Completed (2, [r])
        \<and> strand r = ''+''
        \<and> map_of (attributes r) ''repeat_start'' = Some ''1''
        \<and> map_of (attributes r) ''repeat_end'' = Some ''300'')
   \<and> (\<exists>r. rm_body ''chr1'' masker_line_minus (1, []) = Completed (2, [r])
        \<and> strand r = ''-''
        \<and> map_of (attributes r) ''repeat_start'' = Some ''1''
        \<and> map_of (attributes r) ''repeat_end'' = Some ''300'')"
  using C5_masker_strand_selection [OF masker_lines_match(1) masker_fields_plus, of "''chr1''" 1 "[]"]
        C5_masker_strand_selection [OF masker_lines_match(2) masker_fields_minus, of "''chr1''" 1 "[]"]
  by (simp add: numeral_2_eq_2, blast)

lemma takeWhile_digits_prefix:
  "\<forall>c \<in> set d. is_digit c \<Longrightarrow> (case r of [] \<Rightarrow> True | c # _ \<Rightarrow> \<not> is_digit c) \<Longrightarrow>
   takeWhile is_digit (d @ r) = d \<and> dropWhile is_digit (d @ r) = r"
  by (cases r) simp_all

lemma dust_match_shape:
  assumes "d1 \<noteq> []" "\<forall>c \<in> set d1. is_digit c" "d2 \<noteq> []" "\<forall>c \<in> set d2. is_digit c"
    and "case post of [] \<Rightarrow> True | c # _ \<Rightarrow> \<not> is_digit c"
  shows "dust_result_match (d1 @ '' - '' @ d2 @ post) = Some (d1, d2)"
proof -
  have sp: "\<not> is_digit CHR '' ''" by (simp add: is_digit_def)
  have a: "takeWhile is_digit (d1 @ '' - '' @ d2 @ post) = d1"
       "dropWhile is_digit (d1 @ '' - '' @ d2 @ post) = '' - '' @ d2 @ post"
    using takeWhile_digits_prefix [of d1 "'' - '' @ d2 @ post"] assms(2) sp by simp_all
  have b: "takeWhile is_digit (d2 @ post) = d2"
    using takeWhile_digits_prefix [of d2 post] assms(4,5) by simp
  have "dust_match_at (d1 @ '' - '' @ d2 @ post) = Some (d1, d2)"
    using a b assms(1,3) by (simp add: dust_match_at_def)
  moreover obtain c cs where "d1 @ '' - '' @ d2 @ post = c # cs"
    using assms(1) by (cases d1) auto
  ultimately show ?thesis by simp
qed

lemma dust_match_at_nondigit: "\<not> is_digit c \<Longrightarrow> dust_match_at (c # cs) = None"
  by (simp add: dust_match_at_def)

lemma dust_match_skip:
  "\<forall>c \<in> set pre. \<not> is_digit c \<Longrightarrow> dust_result_match (pre @ s) = dust_result_match s"
  by (induction pre) (simp_all add: dust_match_at_nondigit)

lemma dust_match_shape_pre:
  assumes "\<forall>c \<in> set pre. \<not> is_digit c"
    and "d1 \<noteq> []" "\<forall>c \<in> set d1. is_digit c" "d2 \<noteq> []" "\<forall>c \<in> set d2. is_digit c"
    and "case post of [] \<Rightarrow> True | c # _ \<Rightarrow> \<not> is_digit c"
  shows "dust_result_match (pre @ d1 @ '' - '' @ d2 @ post) = Some (d1, d2)"
  using dust_match_skip [OF assms(1)] dust_match_shape [OF assms(2-6)] by simp


text \<open>
  Claim C7. In the LowComplexity parser a line of the shape \<open><int> - <int>\<close> (a run
  of digits, \<open>space minus space\<close>, a second run of digits, then a rest that does not
  start with a digit; characters that are not digits may come first) yields exactly one
  record: start is the first integer plus 1, end the second plus 1, strand \<open>+\<close>, and
  \<open>repeat_id\<close> is the only attribute.
\<close>

theorem C7_dust_line_record:
  assumes "\<forall>c \<in> set pre. \<not> is_digit c"
    and "d1 \<noteq> []" and "\<forall>c \<in> set d1. is_digit c"
    and "d2 \<noteq> []" and "\<forall>c \<in> set d2. is_digit c"
    and "case post of [] \<Rightarrow> True | c # _ \<Rightarrow> \<not> is_digit c"
  shows "dust_body region (pre @ d1 @ '' - '' @ d2 @ post) (n, out) =
           Completed (n + 1,
             out @ [\<lparr>region_name = region, source = ''Dust'',
                      rf_start = str_nat (int_of_digits d1 + 1),
                      rf_end = str_nat (int_of_digits d2 + 1),
                      strand = ''+'', repeat_id = n, attributes = []\<rparr>])"
  using dust_match_shape_pre [OF assms] by (simp add: dust_body_def)

text \<open>
  The line \<open>12 - 45\<close> yields start 13 and end 46.
\<close>

theorem C7_dust_line_record_witness:
  "dust_body ''chr1'' (''12 - 45'' @ [newline]) (1, []) =
     Completed (2, [\<lparr>region_name = ''chr1'', source = ''Dust'', rf_start = ''13'', rf_end = ''46'',
                       strand = ''+'', repeat_id = 1, attributes = []\<rparr>])"
  using C7_dust_line_record [of "[]" "''12''" "''45''" "[newline]" "''chr1''" 1 "[]"]
  by (simp add: is_digit_def newline_def int_of_digits_def digit_val_def str_nat.simps digit_char_def)

text \<open>
  Claim C6. In the TandemRepeat parser a candidate line of 15 fields whose four numeric
  fields convert is emitted as a record exactly when
  \<open>(score < 50 and percent_matches >= 80 and copy_number > 2 and period < 10) or
  (copy_number >= 2 and percent_matches >= 70 and score >= 50)\<close>; otherwise the
  counter and the output are unchanged.
\<close>

theorem C6_trf_filter:
  assumes "trf_result_match line" and "split_ws line = results" and "length results = 15"
    and "py_float F (results ! 2) = Some period"
    and "py_float F (results ! 3) = Some copy_number"
    and "py_float F (results ! 5) = Some percent_matches"
    and "py_float F (results ! 7) = Some score"
  shows "trf_body F region line (n, out) =
           (if (float_lt score 50 \<and> float_ge percent_matches 80
                  \<and> float_gt copy_number 2 \<and> float_lt period 10)
               \<or> (float_ge copy_number 2 \<and> float_ge percent_matches 70 \<and> float_ge score 50)
            then Completed (n + 1,
                   out @ [\<lparr>region_name = region, source = ''TRF'',
                            rf_start = results ! 0, rf_end = results ! 1, strand = ''+'',
                            repeat_id = n,
                            attributes = [(''score'', py_str F score),
                                          (''repeat_consensus'', results ! 13)]\<rparr>])
            else Completed (n, out))"
  using assms by (simp add: trf_body_def float_of_def Let_def)

text \<open>
  With score 45, percent matches 85 and copy number 3, the line with period 8 is
  accepted and the line with period 12 is rejected.
\<close>

theorem C6_trf_filter_witness:
  "trf_body example_floats ''chr1'' trf_line_period8 (1, []) =
     Completed (2, [\<lparr>region_name = ''chr1'', source = ''TRF'', rf_start = ''100'', rf_end = ''150'',
                       strand = ''+'', repeat_id = 1,
                       attributes = [(''score'', ''45.0''), (''repeat_consensus'', ''ACGTACGT'')]\<rparr>])
   \<and> trf_body example_floats ''chr1'' trf_line_period12 (1, []) = Completed (1, [])"
  using C6_trf_filter [OF trf_lines_match(1) trf_fields_period8, of example_floats
          "Finite 8" "Finite 3" "Finite 85" "Finite 45" "''chr1''" 1 "[]"]
        C6_trf_filter [OF trf_lines_match(2) trf_fields_period12, of example_floats
          "Finite 12" "Finite 3" "Finite 85" "Finite 45" "''chr1''" 1 "[]"]
  by (simp add: example_floats_values example_floats_str)

lemma parse_loop_stuck:
  assumes "\<And>l s. l \<in> set pre \<Longrightarrow> l \<noteq> [] \<and> (\<exists>s'. body l s = Completed s')"
    and "l \<noteq> []" and "\<And>s. body l s = Continue"
  shows "parse_loop body (fst (readline (pre @ l # post))) (snd (readline (pre @ l # post))) st = None"
  using assms(1)
proof (induction pre arbitrary: st)
  case Nil
  show ?case using assms(2,3) by (simp add: parse_loop_continue)
next
  case (Cons p pre)
  from Cons.prems [of p st] obtain s' where p: "p \<noteq> []" "body p st = Completed s'" by auto
  have "parse_loop body (fst (readline (pre @ l # post))) (snd (readline (pre @ l # post))) s' = None"
    using Cons.IH Cons.prems by simp
  with p show ?case by (simp add: parse_loop_completed)
qed

lemma split_acc_nonempty:
  "split_acc cur s \<noteq> [] \<longleftrightarrow> cur \<noteq> [] \<or> (\<exists>c \<in> set s. \<not> is_space c)"
  by (induction s arbitrary: cur) auto

lemma digit_not_space: "is_digit c \<Longrightarrow> \<not> is_space c"
  by (auto simp: is_digit_def is_space_def)

lemma rm_match_split_nonempty:
  assumes "rm_result_match line"
  shows "split_ws line \<noteq> []"
proof -
  from assms have "takeWhile is_digit (dropWhile is_space line) \<noteq> []"
    by (simp add: rm_result_match_def Let_def)
  then obtain c where c: "c \<in> set (takeWhile is_digit (dropWhile is_space line))"
    by (cases "takeWhile is_digit (dropWhile is_space line)") auto
  then have "is_digit c" by (rule set_takeWhileD [THEN conjunct2])
  moreover have "c \<in> set line"
    using c set_takeWhileD set_dropWhileD by metis
  ultimately show ?thesis
    using digit_not_space by (auto simp: split_ws_def split_acc_nonempty)
qed

lemma rm_body_stuck:
  "rm_result_match line \<Longrightarrow> length (rm_fields line) \<noteq> 15 \<Longrightarrow>
   rm_body region line st = Continue"
  by (cases st) (simp add: rm_body_def rm_match_split_nonempty)

lemma trf_body_stuck:
  "trf_result_match line \<Longrightarrow> length (split_ws line) \<noteq> 15 \<Longrightarrow> trf_body F region line st = Continue"
  by (cases st) (simp add: trf_body_def)

text \<open>
  A pass that reaches a candidate line whose field count is not 15 does not return,
  wherever the line stands in the file.
\<close>

lemma rm_parse_never_returns:
  assumes "\<And>p. p \<in> set pre \<Longrightarrow> p \<noteq> [] \<and> (rm_result_match p \<longrightarrow> length (rm_fields p) = 15)"
    and "rm_result_match l" and "length (rm_fields l) \<noteq> 15"
  shows "rm_parse region (pre @ l # post) = None"
  unfolding rm_parse_def
proof (rule parse_loop_stuck)
  fix p s assume "p \<in> set pre"
  with assms(1) have p: "p \<noteq> []" "rm_result_match p \<longrightarrow> length (rm_fields p) = 15" by auto
  then show "p \<noteq> [] \<and> (\<exists>s'. rm_body region p s = Completed s')"
    using rm_match_split_nonempty [of p]
    by (cases s) (auto simp: rm_body_def Let_def)
next
  show "l \<noteq> []" using assms(2) by (auto simp: rm_result_match_def)
next
  fix s show "rm_body region l s = Continue"
    using assms(2,3) by (rule rm_body_stuck)
qed

lemma trf_parse_never_returns:
  assumes "\<And>p. p \<in> set pre \<Longrightarrow> p \<noteq> [] \<and> \<not> trf_result_match p"
    and "trf_result_match l" and "length (split_ws l) \<noteq> 15"
  shows "trf_parse F region (pre @ l # post) = None"
  unfolding trf_parse_def
proof (rule parse_loop_stuck)
  fix p s assume "p \<in> set pre"
  with assms(1) show "p \<noteq> [] \<and> (\<exists>s'. trf_body F region p s = Completed s')"
    by (cases s) (auto simp: trf_body_def)
next
  show "l \<noteq> []" using assms(2) by (auto simp: trf_result_match_def)
next
  fix s show "trf_body F region l s = Continue"
    using assms(2,3) by (rule trf_body_stuck)
qed

lemma file_lines_truncated:
  "file_lines masker_line_truncated = [masker_line_truncated]"
  "file_lines trf_line_truncated = [trf_line_truncated]"
  by (simp_all add: file_lines_def masker_line_truncated_def trf_line_truncated_def newline_def)

text \<open>
  Claim C1 says that both parse passes terminate on every finite file and skip a
  candidate line that does not have 15 fields. The code reaches \<^verbatim>\<open>continue\<close> on
  such a line without having read the next one, so the loop tests the same line again:
  on a file holding one 14-field line neither \<^verbatim>\<open>create_repeatmasker_gtf\<close> nor
  \<^verbatim>\<open>create_trf_gtf\<close> returns.
\<close>

theorem C1_truncated_line_never_returns:
  "create_repeatmasker_gtf ''s.fa.out'' ''s.fa.rm.gtf'' ''chr1'' ''/work''
     (map_of [(''/work/s.fa.out'', masker_line_truncated)]) = None
   \<and> create_trf_gtf example_floats ''s.fa.dat'' ''s.trf.gtf'' ''chr1'' ''/work''
     (map_of [(''/work/s.fa.dat'', trf_line_truncated)]) = None"
proof -
  have ne: "masker_line_truncated \<noteq> []" "trf_line_truncated \<noteq> []"
    by (simp_all add: masker_line_truncated_def trf_line_truncated_def)
  have a: "parse_loop (rm_body ''chr1'') masker_line_truncated [] (1, []) = None"
    by (rule parse_loop_continue [OF ne(1)])
       (simp add: rm_body_stuck masker_lines_match masker_fields_truncated)
  have b: "parse_loop (trf_body example_floats ''chr1'') trf_line_truncated [] (1, []) = None"
    by (rule parse_loop_continue [OF ne(2)])
       (simp add: trf_body_stuck trf_lines_match trf_fields_truncated)
  show ?thesis
    using a b
    by (simp add: create_repeatmasker_gtf_def create_trf_gtf_def parse_file_def file_lines_truncated
          resolve_def path_join_def)
qed

section \<open>The numbering of records\<close>

lemma rm_body_ids: "ids_from_one s \<Longrightarrow> rm_body region l s = Completed s' \<Longrightarrow> ids_from_one s'"
  by (cases s) (auto simp: rm_body_def ids_from_one_def Let_def split: if_splits)

lemma dust_body_ids: "ids_from_one s \<Longrightarrow> dust_body region l s = Completed s' \<Longrightarrow> ids_from_one s'"
  by (cases s) (auto simp: dust_body_def ids_from_one_def Let_def split: option.splits)

lemma trf_body_ids: "ids_from_one s \<Longrightarrow> trf_body F region l s = Completed s' \<Longrightarrow> ids_from_one s'"
  by (cases s) (auto simp: trf_body_def ids_from_one_def Let_def split: if_splits sum.splits)

lemma ids_from_one_init: "ids_from_one (1, [])"
  by (simp add: ids_from_one_def)

lemma pass_ids:
  assumes "rm_parse region ls = Some (r, n, out) \<or> dust_parse region ls = Some (r, n, out)
           \<or> trf_parse F region ls = Some (r, n, out)"
  shows "map repeat_id out = [1..<Suc (length out)] \<and> n = Suc (length out)"
proof -
  have "ids_from_one (n, out)"
    using assms
    by (auto simp: rm_parse_def dust_parse_def trf_parse_def
             intro: parse_loop_invariant [where I = ids_from_one, OF rm_body_ids _ ids_from_one_init]
                    parse_loop_invariant [where I = ids_from_one, OF dust_body_ids _ ids_from_one_init]
                    parse_loop_invariant [where I = ids_from_one, OF trf_body_ids _ ids_from_one_init])
  then show ?thesis by (simp add: ids_from_one_def)
qed

lemma dust_body_completes: "dust_body region l s \<noteq> Continue"
  by (cases s) (auto simp: dust_body_def Let_def split: option.splits)

lemma dust_parse_returns: "\<exists>res. dust_parse region ls = Some res"
  unfolding dust_parse_def
  by (rule parse_loop_returns) (rule dust_body_completes)

lemma dust_example_passes:
  "dust_parse ''chr1'' [''12 - 45'' @ [newline], ''x'' @ [newline], ''50 - 60'' @ [newline]] =
     Some (Inr (), 3,
       [\<lparr>region_name = ''chr1'', source = ''Dust'', rf_start = ''13'', rf_end = ''46'',
          strand = ''+'', repeat_id = 1, attributes = []\<rparr>,
        \<lparr>region_name = ''chr1'', source = ''Dust'', rf_start = ''51'', rf_end = ''61'',
          strand = ''+'', repeat_id = 2, attributes = []\<rparr>])"
  "dust_parse ''chr2'' [''3 - 9'' @ [newline]] =
     Some (Inr (), 2,
       [\<lparr>region_name = ''chr2'', source = ''Dust'', rf_start = ''4'', rf_end = ''10'',
          strand = ''+'', repeat_id = 1, attributes = []\<rparr>])"
  by (simp_all add: dust_parse_def parse_loop.simps dust_body_def dust_match_at_def is_digit_def
        newline_def int_of_digits_def digit_val_def str_nat.simps digit_char_def)

text \<open>
  Claim C8. Every pass starts its counter at 1 and adds 1 per record written, so when a
  pass of any of the three parsers returns (normally or by raising), the records it
  wrote carry the \<open>repeat_id\<close> values 1, 2, ..., n in order and the counter is n + 1.
  The numbering is local to the pass: the i-th records of any two passes carry the same
  \<open>repeat_id\<close>.
\<close>

theorem C8_repeat_ids_consecutive:
  assumes "rm_parse region ls = Some (r, n, out) \<or> dust_parse region ls = Some (r, n, out)
           \<or> trf_parse F region ls = Some (r, n, out)"
    and "rm_parse region' ls' = Some (r', n', out') \<or> dust_parse region' ls' = Some (r', n', out')
           \<or> trf_parse F region' ls' = Some (r', n', out')"
  shows "map repeat_id out = [1..<Suc (length out)] \<and> n = Suc (length out)
         \<and> (\<forall>i. i < length out \<and> i < length out' \<longrightarrow> repeat_id (out ! i) = repeat_id (out' ! i))"
proof -
  have a: "map repeat_id out = [1..<Suc (length out)] \<and> n = Suc (length out)"
    using assms(1) by (rule pass_ids)
  have b: "map repeat_id out' = [1..<Suc (length out')]"
    using assms(2) by (rule pass_ids [THEN conjunct1])
  have "repeat_id (out ! i) = repeat_id (out' ! i)" if "i < length out" "i < length out'" for i
  proof -
    have "repeat_id (out ! i) = map repeat_id out ! i" using that by simp
    also have "\<dots> = 1 + i" using that a by (simp del: upt_Suc)
    also have "\<dots> = map repeat_id out' ! i" using that b by (simp del: upt_Suc)
    finally show ?thesis using that by simp
  qed
  with a show ?thesis by blast
qed

text \<open>
  Two slices, parsed by the LowComplexity parser: the first writes records 1 and 2, the
  second starts again at 1.
\<close>

theorem C8_repeat_ids_consecutive_witness:
  "dust_parse ''chr1'' [''12 - 45'' @ [newline], ''x'' @ [newline], ''50 - 60'' @ [newline]] =
     Some (Inr (), 3,
       [\<lparr>region_name = ''chr1'', source = ''Dust'', rf_start = ''13'', rf_end = ''46'',
          strand = ''+'', repeat_id = 1, attributes = []\<rparr>,
        \<lparr>region_name = ''chr1'', source = ''Dust'', rf_start = ''51'', rf_end = ''61'',
          strand = ''+'', repeat_id = 2, attributes = []\<rparr>])
   \<and> dust_parse ''chr2'' [''3 - 9'' @ [newline]] =
     Some (Inr (), 2,
       [\<lparr>region_name = ''chr2'', source = ''Dust'', rf_start = ''4'', rf_end = ''10'',
          strand = ''+'', repeat_id = 1, attributes = []\<rparr>])
   \<and> map repeat_id
       [\<lparr>region_name = ''chr1'', source = ''Dust'', rf_start = ''13'', rf_end = ''46'',
          strand = ''+'', repeat_id = 1, attributes = []\<rparr>,
        \<lparr>region_name = ''chr1'', source = ''Dust'', rf_start = ''51'', rf_end = ''61'',
          strand = ''+'', repeat_id = 2, attributes = []\<rparr>] = [1..<Suc 2]"
  using C8_repeat_ids_consecutive [of "''chr1''" _ "Inr ()" 3 _ undefined "''chr2''" _ "Inr ()" 2 _,
          OF disjI2 [OF disjI1, OF dust_example_passes(1)] disjI2 [OF disjI1, OF dust_example_passes(2)]]
        dust_example_passes
  by (simp add: upt_rec)

lemma rm_parse_returns:
  assumes "\<And>l. l \<in> set ls \<Longrightarrow> rm_result_match l \<Longrightarrow> length (rm_fields l) = 15"
  shows "\<exists>res. rm_parse region ls = Some res"
  unfolding rm_parse_def
proof (rule parse_loop_returns)
  fix l s assume "l \<in> set ls"
  with assms show "rm_body region l s \<noteq> Continue"
    by (cases s) (auto simp: rm_body_def Let_def)
qed

lemma trf_parse_returns:
  assumes "\<And>l. l \<in> set ls \<Longrightarrow> trf_result_match l \<Longrightarrow> length (split_ws l) = 15"
  shows "\<exists>res. trf_parse F region ls = Some res"
  unfolding trf_parse_def
proof (rule parse_loop_returns)
  fix l s assume "l \<in> set ls"
  with assms show "trf_body F region l s \<noteq> Continue"
    by (cases s) (auto simp: trf_body_def Let_def split: sum.splits)
qed

section \<open>The resume check and the Masker command\<close>


lemma example_collaborators_simps:
  "check_exe example_collaborators p"
  "create_dir example_collaborators = path_join"
  "get_seq_region_lengths example_collaborators fs g m = [(''chr1'', 6000)]"
  "create_slice_ids example_collaborators [(''chr1'', 6000)] a b c = [(''chr1'', 0, 6000)]"
  by (simp_all add: example_collaborators_def example_check_exe_def
        example_lengths_def example_slices_def)

lemma example_paths:
  "path_join ''/data/out'' ''repeatmasker_output'' = ''/data/out/repeatmasker_output''"
  "path_join ''/data/out'' ''dust_output'' = ''/data/out/dust_output''"
  "path_join ''/data/out'' ''trf_output'' = ''/data/out/trf_output''"
  "path_join ''/data/out/repeatmasker_output'' ''annotation.gtf'' = ''/data/out/repeatmasker_output/annotation.gtf''"
  "path_join ''/data/out/dust_output'' ''annotation.gtf'' = ''/data/out/dust_output/annotation.gtf''"
  "path_join ''/data/out/trf_output'' ''annotation.gtf'' = ''/data/out/trf_output/annotation.gtf''"
  "resolve ''/work'' ''/data/out/repeatmasker_output'' = ''/data/out/repeatmasker_output''"
  "resolve ''/data/out/repeatmasker_output'' ''/data/out/repeatmasker_output/annotation.gtf'' =
     ''/data/out/repeatmasker_output/annotation.gtf''"
  "resolve ''/work'' ''/data/out/dust_output/annotation.gtf'' = ''/data/out/dust_output/annotation.gtf''"
  "resolve ''/work'' ''/data/out/trf_output/annotation.gtf'' = ''/data/out/trf_output/annotation.gtf''"
  by (simp_all add: path_join_def resolve_def)

lemma example_relative_paths:
  "path_join ''out'' ''repeatmasker_output'' = ''out/repeatmasker_output''"
  "path_join ''out'' ''dust_output'' = ''out/dust_output''"
  "path_join ''out/repeatmasker_output'' ''annotation.gtf'' = ''out/repeatmasker_output/annotation.gtf''"
  "path_join ''out/dust_output'' ''annotation.gtf'' = ''out/dust_output/annotation.gtf''"
  "resolve ''/work'' ''out/repeatmasker_output'' = ''/work/out/repeatmasker_output''"
  "resolve ''/work/out/repeatmasker_output'' ''out/repeatmasker_output/annotation.gtf'' =
     ''/work/out/repeatmasker_output/out/repeatmasker_output/annotation.gtf''"
  "resolve ''/work'' ''out/dust_output/annotation.gtf'' = ''/work/out/dust_output/annotation.gtf''"
  by (simp_all add: path_join_def resolve_def)

lemma example_outputs_simps:
  "example_outputs ''/data/out/repeatmasker_output/annotation.gtf'' = Some example_gtf"
  "example_outputs ''/data/out/dust_output/annotation.gtf'' = Some example_gtf"
  "example_outputs ''/data/out/trf_output/annotation.gtf'' = Some example_gtf"
  "example_relative_outputs ''/work/out/repeatmasker_output/out/repeatmasker_output/annotation.gtf'' = None"
  "example_relative_outputs ''/work/out/dust_output/annotation.gtf'' = Some example_gtf"
  by (simp_all add: example_outputs_def example_relative_outputs_def)

lemma example_gtf_count:
  "check_gtf_content example_collaborators example_outputs ''/data/out/repeatmasker_output/annotation.gtf'' ''repeat'' = 1"
  "check_gtf_content example_collaborators example_outputs ''/data/out/dust_output/annotation.gtf'' ''repeat'' = 1"
  "check_gtf_content example_collaborators example_outputs ''/data/out/trf_output/annotation.gtf'' ''repeat'' = 1"
  "check_gtf_content example_collaborators example_relative_outputs ''/work/out/dust_output/annotation.gtf'' ''repeat'' = 1"
  by (simp_all add: example_collaborators_def example_check_gtf_content_def example_outputs_def
        example_relative_outputs_def example_gtf_def file_lines_def split_ws_def newline_def tab_def
        is_space_def)


text \<open>
  With a relative output directory the Masker entry point looks for
  \<^verbatim>\<open>out/repeatmasker_output/annotation.gtf\<close> from inside
  \<^verbatim>\<open>out/repeatmasker_output\<close>: a file of that name under the starting directory is
  not the file it tests, and it runs the pipeline, while the LowComplexity entry point,
  which does not change directory, tests that file and returns.
\<close>

lemma relative_output_directory:
  "run_repeatmasker_regions example_collaborators example_relative_outputs ''/work'' ''genome.fa''
     None None None ''out'' 4 =
     (Inr None,
      [CheckExe ''RepeatMasker'', CreateDir ''out'' ''repeatmasker_output'',
       Chdir ''out/repeatmasker_output'',
       GetSeqRegionLengths ''genome.fa'' 5000, CreateSliceIds 1000000 0 5000, NewPool 4,
       ApplyAsync (RepeatmaskerTask
         [Some ''RepeatMasker'', Some ''-nolow'', Some ''-lib'', Some ''homo'',
          Some ''-engine'', Some ''crossmatch'', Some ''-dir'', Some ''out/repeatmasker_output'']
         (''chr1'', 0, 6000) ''genome.fa'' ''out/repeatmasker_output''),
       PoolCloseJoin,
       SliceOutputToGtf ''out/repeatmasker_output'' ''.rm.gtf'' 1 ''repeat_id'' ''repeatmask''])"
  "run_dust_regions example_collaborators example_relative_outputs ''/work'' ''genome.fa'' None ''out'' 4 =
     (Inr (Some 0),
      [CheckExe ''dustmasker'', CreateDir ''out'' ''dust_output'',
       CheckGtfContent ''out/dust_output/annotation.gtf'' ''repeat''])"
  by (simp_all add: run_repeatmasker_regions_def run_dust_regions_def dispatch_all_def prepend_def
        Let_def falsy_def example_collaborators_simps example_relative_paths example_outputs_simps
        example_gtf_count)

lemma library_defaulted: "\<not> falsy (if falsy lib then Some ''homo'' else lib)"
  by (simp add: falsy_def)

lemma dispatch_all_tasks:
  assumes "ApplyAsync t \<in> set (snd (dispatch_all K fs dir genome n mk merge))"
    and "ApplyAsync t \<notin> set merge"
  shows "\<exists>slice_id. t = mk slice_id"
  using assms by (auto simp: dispatch_all_def Let_def split: if_splits)

lemma run_repeatmasker_regions_lib:
  "run_repeatmasker_regions K fs cwd0 genome rp lib species out n =
     (if \<not> check_exe K (if falsy rp then ''RepeatMasker'' else the rp)
      then (Inl SystemExit, [CheckExe (if falsy rp then ''RepeatMasker'' else the rp)])
      else if fs (resolve (resolve cwd0 (create_dir K out ''repeatmasker_output''))
                    (path_join (create_dir K out ''repeatmasker_output'') ''annotation.gtf'')) \<noteq> None
               \<and> 0 < check_gtf_content K fs
                       (resolve (resolve cwd0 (create_dir K out ''repeatmasker_output''))
                          (path_join (create_dir K out ''repeatmasker_output'') ''annotation.gtf''))
                       ''repeat''
      then (Inr None,
            [CheckExe (if falsy rp then ''RepeatMasker'' else the rp),
             CreateDir out ''repeatmasker_output'', Chdir (create_dir K out ''repeatmasker_output''),
             CheckGtfContent (path_join (create_dir K out ''repeatmasker_output'') ''annotation.gtf'')
               ''repeat''])
      else prepend
             ([CheckExe (if falsy rp then ''RepeatMasker'' else the rp),
               CreateDir out ''repeatmasker_output'', Chdir (create_dir K out ''repeatmasker_output'')]
              @ (if fs (resolve (resolve cwd0 (create_dir K out ''repeatmasker_output''))
                          (path_join (create_dir K out ''repeatmasker_output'') ''annotation.gtf''))
                     \<noteq> None
                 then [CheckGtfContent
                         (path_join (create_dir K out ''repeatmasker_output'') ''annotation.gtf'') ''repeat'']
                 else []))
             (dispatch_all K fs (resolve cwd0 (create_dir K out ''repeatmasker_output'')) genome n
                (\<lambda>slice_id. RepeatmaskerTask
                   [Some (if falsy rp then ''RepeatMasker'' else the rp), Some ''-nolow'',
                    Some ''-lib'', Some (if falsy lib then ''homo'' else the lib),
                    Some ''-engine'', Some ''crossmatch'',
                    Some ''-dir'', Some (create_dir K out ''repeatmasker_output'')]
                   slice_id genome (create_dir K out ''repeatmasker_output''))
                [SliceOutputToGtf (create_dir K out ''repeatmasker_output'') ''.rm.gtf'' 1
                   ''repeat_id'' ''repeatmask'']))"
proof -
  have "(if falsy lib then Some ''homo'' else lib) = Some (if falsy lib then ''homo'' else the lib)"
    by (cases lib) (simp_all add: falsy_def)
  then show ?thesis
    using library_defaulted [of lib]
    by (simp add: run_repeatmasker_regions_def Let_def)
qed

text \<open>
  Claim C9. \<^verbatim>\<open>library\<close> is replaced by \<open>homo\<close> when it is empty or
  \<^verbatim>\<open>None\<close>, before the command is built, so the branch for a missing library is
  never taken: the outcome of \<^verbatim>\<open>run_repeatmasker_regions\<close> does not depend on
  \<^verbatim>\<open>species\<close>, and every command it dispatches is the \<open>-lib\<close> command.
\<close>

theorem C9_library_always_used:
  "run_repeatmasker_regions K fs cwd0 genome rp lib species out n =
     run_repeatmasker_regions K fs cwd0 genome rp lib species' out n
   \<and> (\<forall>cmd slice_id g d.
        ApplyAsync (RepeatmaskerTask cmd slice_id g d)
          \<in> set (snd (run_repeatmasker_regions K fs cwd0 genome rp lib species out n))
        \<longrightarrow> cmd = [Some (if falsy rp then ''RepeatMasker'' else the rp), Some ''-nolow'',
                    Some ''-lib'', Some (if falsy lib then ''homo'' else the lib),
                    Some ''-engine'', Some ''crossmatch'',
                    Some ''-dir'', Some (create_dir K out ''repeatmasker_output'')])"
proof (intro conjI allI impI)
  show "run_repeatmasker_regions K fs cwd0 genome rp lib species out n =
        run_repeatmasker_regions K fs cwd0 genome rp lib species' out n"
    by (simp only: run_repeatmasker_regions_lib)
next
  fix cmd slice_id g d
  assume "ApplyAsync (RepeatmaskerTask cmd slice_id g d)
            \<in> set (snd (run_repeatmasker_regions K fs cwd0 genome rp lib species out n))"
  then have "ApplyAsync (RepeatmaskerTask cmd slice_id g d)
               \<in> set (snd (dispatch_all K fs (resolve cwd0 (create_dir K out ''repeatmasker_output''))
                  genome n
                  (\<lambda>slice_id. RepeatmaskerTask
                     [Some (if falsy rp then ''RepeatMasker'' else the rp), Some ''-nolow'',
                      Some ''-lib'', Some (if falsy lib then ''homo'' else the lib),
                      Some ''-engine'', Some ''crossmatch'',
                      Some ''-dir'', Some (create_dir K out ''repeatmasker_output'')]
                     slice_id genome (create_dir K out ''repeatmasker_output''))
                  [SliceOutputToGtf (create_dir K out ''repeatmasker_output'') ''.rm.gtf'' 1
                     ''repeat_id'' ''repeatmask'']))"
    unfolding run_repeatmasker_regions_lib
    by (simp add: prepend_def split: if_splits)
  from dispatch_all_tasks [OF this]
  show "cmd = [Some (if falsy rp then ''RepeatMasker'' else the rp), Some ''-nolow'',
               Some ''-lib'', Some (if falsy lib then ''homo'' else the lib),
               Some ''-engine'', Some ''crossmatch'',
               Some ''-dir'', Some (create_dir K out ''repeatmasker_output'')]"
    by auto
qed

lemma example_masker_run_events:
  "run_repeatmasker_regions example_collaborators (map_of []) ''/work'' ''genome.fa'' None None
     (Some ''mouse'') ''/data/out'' 4 =
     (Inr None,
      [CheckExe ''RepeatMasker'', CreateDir ''/data/out'' ''repeatmasker_output'',
       Chdir ''/data/out/repeatmasker_output'',
       GetSeqRegionLengths ''genome.fa'' 5000, CreateSliceIds 1000000 0 5000, NewPool 4,
       ApplyAsync (RepeatmaskerTask
         [Some ''RepeatMasker'', Some ''-nolow'', Some ''-lib'', Some ''homo'',
          Some ''-engine'', Some ''crossmatch'', Some ''-dir'', Some ''/data/out/repeatmasker_output'']
         (''chr1'', 0, 6000) ''genome.fa'' ''/data/out/repeatmasker_output''),
       PoolCloseJoin,
       SliceOutputToGtf ''/data/out/repeatmasker_output'' ''.rm.gtf'' 1 ''repeat_id'' ''repeatmask''])"
  by (simp add: run_repeatmasker_regions_def dispatch_all_def prepend_def Let_def falsy_def
        example_collaborators_simps example_paths)

text \<open>
  A run with no library and species \<open>mouse\<close>: the dispatched command uses
  \<open>-lib homo\<close>, and the run equals the one without a species.
\<close>

theorem C9_library_always_used_witness:
  "ApplyAsync (RepeatmaskerTask
       [Some ''RepeatMasker'', Some ''-nolow'', Some ''-lib'', Some ''homo'',
        Some ''-engine'', Some ''crossmatch'', Some ''-dir'', Some ''/data/out/repeatmasker_output'']
       (''chr1'', 0, 6000) ''genome.fa'' ''/data/out/repeatmasker_output'')
     \<in> set (snd (run_repeatmasker_regions example_collaborators (map_of []) ''/work'' ''genome.fa''
                     None None (Some ''mouse'') ''/data/out'' 4))
   \<and> run_repeatmasker_regions example_collaborators (map_of []) ''/work'' ''genome.fa'' None None
         (Some ''mouse'') ''/data/out'' 4 =
       run_repeatmasker_regions example_collaborators (map_of []) ''/work'' ''genome.fa'' None None
         None ''/data/out'' 4"
proof -
  have "ApplyAsync (RepeatmaskerTask
       [Some ''RepeatMasker'', Some ''-nolow'', Some ''-lib'', Some ''homo'',
        Some ''-engine'', Some ''crossmatch'', Some ''-dir'', Some ''/data/out/repeatmasker_output'']
       (''chr1'', 0, 6000) ''genome.fa'' ''/data/out/repeatmasker_output'')
     \<in> set (snd (run_repeatmasker_regions example_collaborators (map_of []) ''/work'' ''genome.fa''
                     None None (Some ''mouse'') ''/data/out'' 4))"
    by (subst example_masker_run_events) simp
  then show ?thesis
    using C9_library_always_used [of example_collaborators "map_of []" "''/work''" "''genome.fa''"
            None None "Some ''mouse''" "''/data/out''" 4 None, THEN conjunct1]
    by (rule conjI)
qed

section \<open>The workers and the command template\<close>

lemma keeps_then_io:
  assumes "keeps_list a m" and "\<And>x. keeps_list a (k x)"
  shows "keeps_list a (then_io m k)"
  unfolding keeps_list_def
proof (intro allI impI)
  fix w r w'
  assume h: "then_io m k w = Some (r, w') \<and> a < length (heap w)"
  show "a < length (heap w') \<and> heap w' ! a = heap w ! a"
  proof (cases "m w")
    case None
    with h show ?thesis by (simp add: then_io_def)
  next
    case (Some p)
    obtain r1 w1 where p: "p = (r1, w1)" by (cases p)
    have m: "a < length (heap w1) \<and> heap w1 ! a = heap w ! a"
      using assms(1) Some p h by (auto simp: keeps_list_def)
    show ?thesis
    proof (cases r1)
      case (Inl e)
      with Some p h m show ?thesis by (simp add: then_io_def)
    next
      case (Inr x)
      with Some p h have "k x w1 = Some (r, w')" by (simp add: then_io_def)
      with assms(2) [of x] m show ?thesis by (auto simp: keeps_list_def)
    qed
  qed
qed

lemma keeps_run_cmd: "keeps_list a (run_cmd X c)"
  by (auto simp: keeps_list_def run_cmd_def split: sum.splits prod.splits)

lemma keeps_in_files: "keeps_list a (in_files f)"
  by (auto simp: keeps_list_def in_files_def split: option.splits prod.splits)

lemma keeps_os_remove: "keeps_list a (os_remove p)"
  by (auto simp: keeps_list_def os_remove_def split: if_splits)

lemma keeps_return: "(\<And>w. heap (f w) = heap w) \<Longrightarrow> keeps_list a (\<lambda>w. Some (Inr x, f w))"
  by (auto simp: keeps_list_def)

lemma heap_write_file [simp]: "heap (write_file p c w) = heap w"
  by (simp add: write_file_def)

lemma heap_remove_if_exists [simp]: "heap (remove_if_exists p w) = heap w"
  by (simp add: remove_if_exists_def)

lemma heap_os_chdir [simp]: "heap (os_chdir d w) = heap w"
  by (simp add: os_chdir_def)

lemma keeps_list_set: "a \<noteq> c \<Longrightarrow> keeps_list a (list_set c i v)"
  by (auto simp: keeps_list_def list_set_def split: if_splits)

lemma copy_then_append:
  assumes "a < length (heap w)"
  shows "a < length (heap (list_append (fst (list_copy a w)) v (snd (list_copy a w))))"
    and "heap (list_append (fst (list_copy a w)) v (snd (list_copy a w))) ! a = heap w ! a"
    and "a < length (heap (snd (list_copy a w)))"
    and "heap (snd (list_copy a w)) ! a = heap w ! a"
    and "a \<noteq> fst (list_copy a w)"
  using assms by (simp_all add: list_copy_def list_append_def nth_append)

lemma keepsD:
  "keeps_list a m \<Longrightarrow> m w = Some (r, w') \<Longrightarrow> a < length (heap w) \<Longrightarrow> heap w' ! a = heap w ! a"
  by (auto simp: keeps_list_def)

lemma masker_worker_keeps:
  assumes "multiprocess_repeatmasker X a slice_id genome dir w = Some (r, w')" and "a < length (heap w)"
  shows "heap w' ! a = heap w ! a"
proof -
  obtain region start end' where s: "slice_id = (region, start, end')" by (cases slice_id)
  define p where "p = path_join dir (slice_file_name slice_id @ ''.fa'')"
  define w1 where "w1 = write_file p (fasta_text region (get_sequence X region start end' 1 genome dir)) w"
  define w3 where "w3 = list_append (fst (list_copy a w1)) (Some p) (snd (list_copy a w1))"
  have a1: "a < length (heap w1)" "heap w1 ! a = heap w ! a"
    using assms(2) by (simp_all add: w1_def)
  have a3: "a < length (heap w3)" "heap w3 ! a = heap w ! a"
    using copy_then_append(1,2) [OF a1(1)] a1(2) by (simp_all add: w3_def)
  have "\<exists>m. keeps_list a m \<and> multiprocess_repeatmasker X a slice_id genome dir w = m w3"
    unfolding multiprocess_repeatmasker_def s
    apply (simp add: Let_def w3_def w1_def p_def s)
    apply (rule exI, rule conjI [OF _ refl])
    apply (intro keeps_then_io keeps_run_cmd keeps_in_files keeps_os_remove keeps_return)
    apply simp
    done
  then obtain m where m: "keeps_list a m" "m w3 = Some (r, w')" using assms(1) by auto
  from keepsD [OF m a3(1)] a3(2) show ?thesis by simp
qed

lemma dust_worker_keeps:
  assumes "multiprocess_dust X a slice_id genome dir w = Some (r, w')" and "a < length (heap w)"
  shows "heap w' ! a = heap w ! a"
proof -
  obtain region start end' where s: "slice_id = (region, start, end')" by (cases slice_id)
  define p where "p = path_join dir (slice_file_name slice_id @ ''.fa'')"
  define w2 where "w2 = write_file (p @ ''.dust'') []
                          (write_file p (fasta_text region (get_sequence X region start end' 1 genome dir)) w)"
  define w4 where "w4 = list_append (fst (list_copy a w2)) (Some p) (snd (list_copy a w2))"
  have a2: "a < length (heap w2)" "heap w2 ! a = heap w ! a"
    using assms(2) by (simp_all add: w2_def)
  have a4: "a < length (heap w4)" "heap w4 ! a = heap w ! a"
    using copy_then_append(1,2) [OF a2(1)] a2(2) by (simp_all add: w4_def)
  have "\<exists>m. keeps_list a m \<and> multiprocess_dust X a slice_id genome dir w = m w4"
    unfolding multiprocess_dust_def s
    apply (simp add: Let_def w4_def w2_def p_def s)
    apply (rule exI, rule conjI [OF _ refl])
    apply (intro keeps_then_io keeps_run_cmd keeps_in_files keeps_os_remove keeps_return)
    apply simp
    done
  then obtain m where m: "keeps_list a m" "m w4 = Some (r, w')" using assms(1) by auto
  from keepsD [OF m a4(1)] a4(2) show ?thesis by simp
qed

lemma trf_worker_keeps:
  assumes "multiprocess_trf F X a slice_id genome dir ext w = Some (r, w')" and "a < length (heap w)"
  shows "heap w' ! a = heap w ! a"
proof -
  obtain region start end' where s: "slice_id = (region, start, end')" by (cases slice_id)
  define p where "p = path_join dir (slice_file_name slice_id @ ''.fa'')"
  define w2 where "w2 = os_chdir dir
                          (write_file p (fasta_text region (get_sequence X region start end' 1 genome dir)) w)"
  define w3 where "w3 = snd (list_copy a w2)"
  have a2: "a < length (heap w2)" "heap w2 ! a = heap w ! a"
    using assms(2) by (simp_all add: w2_def)
  have a3: "a < length (heap w3)" "heap w3 ! a = heap w ! a"
    using copy_then_append(3,4) [OF a2(1)] a2(2) by (simp_all add: w3_def)
  have "\<exists>m. keeps_list a m \<and> multiprocess_trf F X a slice_id genome dir ext w = m w3"
    unfolding multiprocess_trf_def s
    apply (simp add: Let_def w3_def w2_def p_def s)
    apply (rule exI, rule conjI [OF _ refl])
    apply (intro keeps_then_io keeps_run_cmd keeps_in_files keeps_os_remove keeps_list_set)
    using assms(2) apply (simp add: list_copy_def)
    done
  then obtain m where m: "keeps_list a m" "m w3 = Some (r, w')" using assms(1) by auto
  from keepsD [OF m a3(1)] a3(2) show ?thesis by simp
qed

text \<open>
  Claim C10. Each worker copies the command template it is given and appends to, or
  assigns into, the copy. Whatever a worker returns, normally or by raising, the
  template list is the list it was before the call.
\<close>

theorem C10_template_unchanged:
  assumes "generic_cmd < length (heap w)"
  shows "(multiprocess_repeatmasker X generic_cmd slice_id genome dir w = Some (r, w')
            \<longrightarrow> heap w' ! generic_cmd = heap w ! generic_cmd)
       \<and> (multiprocess_dust X generic_cmd slice_id genome dir w = Some (r, w')
            \<longrightarrow> heap w' ! generic_cmd = heap w ! generic_cmd)
       \<and> (multiprocess_trf F X generic_cmd slice_id genome dir ext w = Some (r, w')
            \<longrightarrow> heap w' ! generic_cmd = heap w ! generic_cmd)"
proof (intro conjI impI)
  assume "multiprocess_repeatmasker X generic_cmd slice_id genome dir w = Some (r, w')"
  then show "heap w' ! generic_cmd = heap w ! generic_cmd"
    using assms by (rule masker_worker_keeps)
next
  assume "multiprocess_dust X generic_cmd slice_id genome dir w = Some (r, w')"
  then show "heap w' ! generic_cmd = heap w ! generic_cmd"
    using assms by (rule dust_worker_keeps)
next
  assume "multiprocess_trf F X generic_cmd slice_id genome dir ext w = Some (r, w')"
  then show "heap w' ! generic_cmd = heap w ! generic_cmd"
    using assms by (rule trf_worker_keeps)
qed

section \<open>A run of the Masker worker\<close>

lemma example_fasta_path:
  "path_join ''out'' (slice_file_name (''chr1'', 0, 6000) @ ''.fa'') = ''out/chr1.rs0.re6000.fa''"
  by (simp add: path_join_def slice_file_name_def str_int_def str_nat.simps digit_char_def)

lemma example_resolved:
  "resolve ''/'' ''out/chr1.rs0.re6000.fa'' = ''/out/chr1.rs0.re6000.fa''"
  "resolve ''/'' ''out/chr1.rs0.re6000.fa.out'' = ''/out/chr1.rs0.re6000.fa.out''"
  "resolve ''/'' ''out/chr1.rs0.re6000.fa.masked'' = ''/out/chr1.rs0.re6000.fa.masked''"
  "resolve ''/'' ''out/chr1.rs0.re6000.fa.rm.gtf'' = ''/out/chr1.rs0.re6000.fa.rm.gtf''"
  "resolve ''/'' ''out/chr1.rs0.re6000.fa.tbl'' = ''/out/chr1.rs0.re6000.fa.tbl''"
  "resolve ''/'' ''out/chr1.rs0.re6000.fa.log'' = ''/out/chr1.rs0.re6000.fa.log''"
  "resolve ''/'' ''out/chr1.rs0.re6000.fa.cat'' = ''/out/chr1.rs0.re6000.fa.cat''"
  by (simp_all add: resolve_def path_join_def)

lemma masker_plus_body:
  "rm_body ''chr1'' masker_line_plus (1, []) =
     Completed (2, [\<lparr>region_name = ''chr1'', source = ''RepeatMasker'', rf_start = ''100'',
                       rf_end = ''200'', strand = ''+'', repeat_id = 1,
                       attributes = [(''repeat_name'', ''AluSx''), (''repeat_class'', ''SINE/Alu''),
                                     (''repeat_start'', ''1''), (''repeat_end'', ''300''),
                                     (''score'', ''463'')]\<rparr>])"
  using rm_match_split_nonempty [OF masker_lines_match(1)]
  by (simp add: rm_body_def masker_lines_match masker_fields_plus)

lemma masker_plus_lines: "file_lines masker_line_plus = [masker_line_plus]"
  by (simp add: file_lines_def masker_line_plus_def newline_def)

lemma masker_plus_parse:
  "parse_loop (rm_body ''chr1'') masker_line_plus [] (Suc 0, []) =
     Some (Inr (), 2, [\<lparr>region_name = ''chr1'', source = ''RepeatMasker'', rf_start = ''100'',
                       rf_end = ''200'', strand = ''+'', repeat_id = 1,
                       attributes = [(''repeat_name'', ''AluSx''), (''repeat_class'', ''SINE/Alu''),
                                     (''repeat_start'', ''1''), (''repeat_end'', ''300''),
                                     (''score'', ''463'')]\<rparr>])"
proof -
  have ne: "masker_line_plus \<noteq> []" by (simp add: masker_line_plus_def)
  show ?thesis
    using masker_plus_body ne
    by (subst parse_loop.simps) (simp add: parse_loop_eof)
qed

lemma example_masker_worker_run:
  "multiprocess_repeatmasker example_externals 0 (''chr1'', 0, 6000) ''genome.fa'' ''out'' example_world =
     Some (Inr (),
       \<lparr>files = map_of [(''/out/chr1.rs0.re6000.fa.out'', masker_line_plus)],
        heap = [[Some ''RepeatMasker'', Some ''-nolow''],
                [Some ''RepeatMasker'', Some ''-nolow'', Some ''out/chr1.rs0.re6000.fa'']],
        cwd = ''/''\<rparr>)"
  apply (simp add: multiprocess_repeatmasker_def example_fasta_path Let_def)
  apply (simp add: then_io_def run_cmd_def list_copy_def list_append_def write_file_def
      example_world_def example_externals_def example_masker_def in_files_def
      create_repeatmasker_gtf_def parse_file_def masker_plus_lines masker_plus_parse
      os_remove_def remove_if_exists_def example_resolved)
  done

text \<open>
  A run of the Masker worker: the template at address 0 keeps its two elements, and
  the copy at address 1 has the path of the slice appended.
\<close>

theorem C10_template_unchanged_witness:
  "(0::nat) < length (heap example_world)
   \<and> multiprocess_repeatmasker example_externals 0 (''chr1'', 0, 6000) ''genome.fa'' ''out'' example_world =
       Some (Inr (),
         \<lparr>files = map_of [(''/out/chr1.rs0.re6000.fa.out'', masker_line_plus)],
          heap = [[Some ''RepeatMasker'', Some ''-nolow''],
                  [Some ''RepeatMasker'', Some ''-nolow'', Some ''out/chr1.rs0.re6000.fa'']],
          cwd = ''/''\<rparr>)
   \<and> heap \<lparr>files = map_of [(''/out/chr1.rs0.re6000.fa.out'', masker_line_plus)],
             heap = [[Some ''RepeatMasker'', Some ''-nolow''],
                     [Some ''RepeatMasker'', Some ''-nolow'', Some ''out/chr1.rs0.re6000.fa'']],
             cwd = ''/''\<rparr> ! 0 = heap example_world ! 0"
proof -
  have h: "(0::nat) < length (heap example_world)" by (simp add: example_world_def)
  from C10_template_unchanged [OF h, of example_externals "(''chr1'', 0, 6000)" "''genome.fa''" "''out''"
         "Inr ()" _ example_floats "''.dat''", THEN conjunct1, rule_format, OF example_masker_worker_run]
  show ?thesis using h example_masker_worker_run by simp
qed

text \<open>
  Claim C2 says that a worker deletes its scratch files, the raw tool output among
  them, and leaves the canonical record file. In \<^verbatim>\<open>multiprocess_repeatmasker\<close> the
  conditional removal at lines 166 and 167 names \<^verbatim>\<open>region_results_file_path\<close>, the
  canonical \<^verbatim>\<open>.rm.gtf\<close> file, and no statement removes
  \<^verbatim>\<open>repeatmasker_output_file_path\<close>. On a slice for which the tool reports one hit,
  the worker returns with the raw \<^verbatim>\<open>.out\<close> file still present and the
  \<^verbatim>\<open>.rm.gtf\<close> file gone.
\<close>

theorem C2_masker_worker_deletes_canonical_file:
  "multiprocess_repeatmasker example_externals 0 (''chr1'', 0, 6000) ''genome.fa'' ''out'' example_world =
     Some (Inr (),
       \<lparr>files = map_of [(''/out/chr1.rs0.re6000.fa.out'', masker_line_plus)],
        heap = [[Some ''RepeatMasker'', Some ''-nolow''],
                [Some ''RepeatMasker'', Some ''-nolow'', Some ''out/chr1.rs0.re6000.fa'']],
        cwd = ''/''\<rparr>)
   \<and> map_of [(''/out/chr1.rs0.re6000.fa.out'', masker_line_plus)] ''/out/chr1.rs0.re6000.fa.rm.gtf'' = None
   \<and> map_of [(''/out/chr1.rs0.re6000.fa.out'', masker_line_plus)] ''/out/chr1.rs0.re6000.fa.out''
       = Some masker_line_plus"
  using example_masker_worker_run by simp

text \<open>
  The same for every input: when the Masker worker returns normally, the canonical
  file of its slice does not exist.
\<close>

lemma files_remove_if_exists:
  "files (remove_if_exists p w) q = (if q = resolve (cwd w) p then None else files w q)"
  by (simp add: remove_if_exists_def)

lemma cwd_remove_if_exists [simp]: "cwd (remove_if_exists p w) = cwd w"
  by (simp add: remove_if_exists_def)

lemma then_io_Inr:
  assumes "then_io m k w = Some (Inr x, w')"
  shows "\<exists>a w1. m w = Some (Inr a, w1) \<and> k a w1 = Some (Inr x, w')"
  using assms by (auto simp: then_io_def split: option.splits sum.splits prod.splits)

lemma masker_worker_never_leaves_canonical_file:
  assumes "multiprocess_repeatmasker X a (region, start, end') genome dir w = Some (Inr (), w')"
  shows "files w' (resolve (cwd w')
           (path_join dir (slice_file_name (region, start, end') @ ''.fa'') @ ''.rm.gtf'')) = None"
  using assms
  by (auto simp: multiprocess_repeatmasker_def Let_def files_remove_if_exists dest!: then_io_Inr)

section \<open>A tool that fails\<close>

text \<open>
  The paths of one slice are a common stem followed by a suffix, also after they are
  resolved in a working directory, so paths with different suffixes name different
  files.
\<close>

lemma path_join_append: "x \<noteq> [] \<Longrightarrow> path_join a (x @ s) = path_join a x @ s"
  by (simp add: path_join_def)

lemma path_join_nonempty: "x \<noteq> [] \<Longrightarrow> path_join a x \<noteq> []"
  by (simp add: path_join_def)

lemma resolve_append: "x \<noteq> [] \<Longrightarrow> resolve d (x @ s) = resolve d x @ s"
  by (simp add: resolve_def path_join_append)

lemma slice_file_name_nonempty: "slice_file_name sl \<noteq> []"
  by (cases sl) (simp add: slice_file_name_def)

lemma slice_paths:
  "path_join dir (slice_file_name sl @ s) = path_join dir (slice_file_name sl) @ s"
  "resolve c (path_join dir (slice_file_name sl) @ s) = resolve c (path_join dir (slice_file_name sl)) @ s"
  "resolve c ((path_join dir (slice_file_name sl) @ s) @ t) =
     resolve c (path_join dir (slice_file_name sl)) @ s @ t"
  using slice_file_name_nonempty [of sl]
  by (simp_all add: path_join_append resolve_append path_join_nonempty)

lemma cmd_strings_append:
  "cmd_strings xs = Inr argv \<Longrightarrow> cmd_strings (xs @ [Some p]) = Inr (argv @ [p])"
proof (induction xs arbitrary: argv)
  case Nil
  then show ?case by simp
next
  case (Cons x xs)
  then show ?case by (cases x) (auto split: sum.splits)
qed

lemma parse_loop_no_lines: "parse_loop body (fst (readline [])) (snd (readline [])) st = Some (Inr (), st)"
  by (simp add: parse_loop_eof)

text \<open>
  The LowComplexity worker opens the raw output file itself before it starts the tool
  (lines 308 and 309). When the tool prints nothing and leaves the files alone, the
  parse step finds an empty file and the worker returns normally with an empty
  canonical file.
\<close>

lemma dust_worker_silent_tool:
  assumes tool: "\<And>argv d fs. subprocess_run X argv d fs = Inr (fs, [])"
    and tmpl: "a < length (heap w)" "cmd_strings (heap w ! a) = Inr argv0"
  shows "\<exists>w'. multiprocess_dust X a (region, start, end') genome dir w = Some (Inr (), w')
              \<and> files w' (resolve (cwd w)
                    (path_join dir (slice_file_name (region, start, end') @ ''.dust.gtf''))) = Some []"
proof -
  define B where "B = resolve (cwd w) (path_join dir (slice_file_name (region, start, end')))"
  have cs: "cmd_strings ((heap w @ [heap w ! a])[length (heap w) :=
              heap w ! a @ [Some (path_join dir (slice_file_name (region, start, end')) @ ''.fa'')]]
              ! length (heap w))
            = Inr (argv0 @ [path_join dir (slice_file_name (region, start, end')) @ ''.fa''])"
    using tmpl by (simp add: cmd_strings_append)
  show ?thesis
    using tmpl(1) cs
    by (simp add: multiprocess_dust_def Let_def slice_paths then_io_def run_cmd_def tool
          list_copy_def list_append_def write_file_def in_files_def create_dust_gtf_def
          parse_file_def file_lines_def parse_loop_eof os_remove_def B_def [symmetric] nth_append)
qed

text \<open>
  The Masker and TandemRepeat workers rely on the tool to write the raw output file.
  When it does not, the parse step raises on opening it; the only file the worker
  leaves behind is the input sequence file it wrote.
\<close>

lemma masker_worker_missing_output:
  assumes tool: "\<And>argv d fs. subprocess_run X argv d fs = Inr (fs, [])"
    and tmpl: "a < length (heap w)" "cmd_strings (heap w ! a) = Inr argv0"
    and absent: "files w (resolve (cwd w)
                   (path_join dir (slice_file_name (region, start, end') @ ''.fa'') @ ''.out'')) = None"
  shows "\<exists>w'. multiprocess_repeatmasker X a (region, start, end') genome dir w =
                Some (Inl (FileNotFoundError
                        (path_join dir (slice_file_name (region, start, end') @ ''.fa'') @ ''.out'')), w')
              \<and> files w' =
                  (files w)(resolve (cwd w) (path_join dir (slice_file_name (region, start, end') @ ''.fa''))
                     \<mapsto> fasta_text region (get_sequence X region start end' 1 genome dir))"
proof -
  have cs: "cmd_strings ((heap w @ [heap w ! a])[length (heap w) :=
              heap w ! a @ [Some (path_join dir (slice_file_name (region, start, end')) @ ''.fa'')]]
              ! length (heap w))
            = Inr (argv0 @ [path_join dir (slice_file_name (region, start, end')) @ ''.fa''])"
    using tmpl by (simp add: cmd_strings_append)
  show ?thesis
    using tmpl(1) cs absent
    by (simp add: multiprocess_repeatmasker_def Let_def slice_paths then_io_def run_cmd_def tool
          list_copy_def list_append_def write_file_def in_files_def create_repeatmasker_gtf_def
          parse_file_def nth_append)
qed

lemma trf_worker_missing_output:
  assumes tool: "\<And>argv d fs. subprocess_run X argv d fs = Inr (fs, [])"
    and tmpl: "a < length (heap w)" "1 < length (heap w ! a)"
      "cmd_strings ((heap w ! a)[1 := Some (path_join dir (slice_file_name (region, start, end') @ ''.fa''))])
         = Inr argv"
    and absent: "files w (resolve (resolve (cwd w) dir)
                   (path_join dir (slice_file_name (region, start, end') @ ''.fa'') @ ext)) = None"
    and other: "resolve (resolve (cwd w) dir)
                   (path_join dir (slice_file_name (region, start, end') @ ''.fa'') @ ext)
                \<noteq> resolve (cwd w) (path_join dir (slice_file_name (region, start, end') @ ''.fa''))"
  shows "\<exists>w'. multiprocess_trf F X a (region, start, end') genome dir ext w =
                Some (Inl (FileNotFoundError
                        (path_join dir (slice_file_name (region, start, end') @ ''.fa'') @ ext)), w')
              \<and> files w' =
                  (files w)(resolve (cwd w) (path_join dir (slice_file_name (region, start, end') @ ''.fa''))
                     \<mapsto> fasta_text region (get_sequence X region start end' 1 genome dir))"
  using tmpl absent other
  by (simp add: multiprocess_trf_def Let_def then_io_def run_cmd_def tool list_set_def
        list_copy_def write_file_def os_chdir_def in_files_def create_trf_gtf_def
        parse_file_def nth_append)

text \<open>
  Claim C3, amended. For every slice whose tool invocation fails, printing nothing and
  writing no file: in the LowComplexity variant the parse step finds nothing and emits
  zero records without raising, and the worker returns normally with an empty canonical
  file; in the Masker and TandemRepeat variants, where no raw output file exists when
  the parse step starts, the parse step raises \<^verbatim>\<open>FileNotFoundError\<close> on opening it
  and no canonical file is written: the files are those from before the call and the
  input sequence file.
\<close>

theorem C3_tool_failure_per_variant:
  assumes "\<And>argv d fs. subprocess_run X argv d fs = Inr (fs, [])"
    and "a < length (heap w)"
  shows "(cmd_strings (heap w ! a) = Inr argv0
          \<longrightarrow> (\<exists>w'. multiprocess_dust X a (region, start, end') genome dir w = Some (Inr (), w')
                  \<and> files w' (resolve (cwd w)
                        (path_join dir (slice_file_name (region, start, end') @ ''.dust.gtf''))) = Some []))
       \<and> (cmd_strings (heap w ! a) = Inr argv0
          \<and> files w (resolve (cwd w)
                (path_join dir (slice_file_name (region, start, end') @ ''.fa'') @ ''.out'')) = None
          \<longrightarrow> (\<exists>w'. multiprocess_repeatmasker X a (region, start, end') genome dir w =
                  Some (Inl (FileNotFoundError
                          (path_join dir (slice_file_name (region, start, end') @ ''.fa'') @ ''.out'')), w')
                  \<and> files w' =
                      (files w)(resolve (cwd w)
                          (path_join dir (slice_file_name (region, start, end') @ ''.fa''))
                        \<mapsto> fasta_text region (get_sequence X region start end' 1 genome dir))))
       \<and> (1 < length (heap w ! a)
          \<and> cmd_strings ((heap w ! a)[1 := Some (path_join dir (slice_file_name (region, start, end') @ ''.fa''))])
               = Inr argv1
          \<and> files w (resolve (resolve (cwd w) dir)
                (path_join dir (slice_file_name (region, start, end') @ ''.fa'') @ ext)) = None
          \<and> resolve (resolve (cwd w) dir)
                (path_join dir (slice_file_name (region, start, end') @ ''.fa'') @ ext)
              \<noteq> resolve (cwd w) (path_join dir (slice_file_name (region, start, end') @ ''.fa''))
          \<longrightarrow> (\<exists>w'. multiprocess_trf F X a (region, start, end') genome dir ext w =
                  Some (Inl (FileNotFoundError
                          (path_join dir (slice_file_name (region, start, end') @ ''.fa'') @ ext)), w')
                  \<and> files w' =
                      (files w)(resolve (cwd w)
                          (path_join dir (slice_file_name (region, start, end') @ ''.fa''))
                        \<mapsto> fasta_text region (get_sequence X region start end' 1 genome dir))))"
proof (intro conjI impI)
  assume "cmd_strings (heap w ! a) = Inr argv0"
  with assms show "\<exists>w'. multiprocess_dust X a (region, start, end') genome dir w = Some (Inr (), w')
                  \<and> files w' (resolve (cwd w)
                        (path_join dir (slice_file_name (region, start, end') @ ''.dust.gtf''))) = Some []"
    by (intro dust_worker_silent_tool)
next
  assume "cmd_strings (heap w ! a) = Inr argv0
          \<and> files w (resolve (cwd w)
                (path_join dir (slice_file_name (region, start, end') @ ''.fa'') @ ''.out'')) = None"
  with assms show "\<exists>w'. multiprocess_repeatmasker X a (region, start, end') genome dir w =
                  Some (Inl (FileNotFoundError
                          (path_join dir (slice_file_name (region, start, end') @ ''.fa'') @ ''.out'')), w')
                  \<and> files w' =
                      (files w)(resolve (cwd w)
                          (path_join dir (slice_file_name (region, start, end') @ ''.fa''))
                        \<mapsto> fasta_text region (get_sequence X region start end' 1 genome dir))"
    by (intro masker_worker_missing_output) auto
next
  assume "1 < length (heap w ! a)
          \<and> cmd_strings ((heap w ! a)[1 := Some (path_join dir (slice_file_name (region, start, end') @ ''.fa''))])
               = Inr argv1
          \<and> files w (resolve (resolve (cwd w) dir)
                (path_join dir (slice_file_name (region, start, end') @ ''.fa'') @ ext)) = None
          \<and> resolve (resolve (cwd w) dir)
                (path_join dir (slice_file_name (region, start, end') @ ''.fa'') @ ext)
              \<noteq> resolve (cwd w) (path_join dir (slice_file_name (region, start, end') @ ''.fa''))"
  with assms show "\<exists>w'. multiprocess_trf F X a (region, start, end') genome dir ext w =
                  Some (Inl (FileNotFoundError
                          (path_join dir (slice_file_name (region, start, end') @ ''.fa'') @ ext)), w')
                  \<and> files w' =
                      (files w)(resolve (cwd w)
                          (path_join dir (slice_file_name (region, start, end') @ ''.fa''))
                        \<mapsto> fasta_text region (get_sequence X region start end' 1 genome dir))"
    by (intro trf_worker_missing_output) auto
qed

lemma failing_externals_simps:
  "subprocess_run failing_externals argv d fs = Inr (fs, [])"
  "get_sequence failing_externals region start end' 1 genome dir = ''ACGT''"
  by (simp_all add: failing_externals_def failing_tool_def example_sequence_def)

lemma example_slice_paths:
  "path_join ''out'' (slice_file_name (''chr1'', 0, 6000) @ ''.dust.gtf'') = ''out/chr1.rs0.re6000.dust.gtf''"
  "path_join ''/data/out'' (slice_file_name (''chr1'', 0, 6000) @ ''.fa'') = ''/data/out/chr1.rs0.re6000.fa''"
  "resolve ''/'' ''out/chr1.rs0.re6000.dust.gtf'' = ''/out/chr1.rs0.re6000.dust.gtf''"
  "resolve ''/'' ''/data/out'' = ''/data/out''"
  "resolve ''/'' ''/data/out/chr1.rs0.re6000.fa'' = ''/data/out/chr1.rs0.re6000.fa''"
  "resolve ''/data/out'' ''/data/out/chr1.rs0.re6000.fa.2.5.7.80.10.40.500.dat'' =
     ''/data/out/chr1.rs0.re6000.fa.2.5.7.80.10.40.500.dat''"
  by (simp_all add: path_join_def resolve_def slice_file_name_def str_int_def str_nat.simps digit_char_def)

text \<open>
  Claim C3 says that for a slice whose tool invocation fails the parse step of each
  variant emits zero records without raising. With a tool that does nothing, the
  Masker worker and the TandemRepeat worker end in \<^verbatim>\<open>FileNotFoundError\<close>, raised by
  \<^verbatim>\<open>open\<close> in the parse step.
\<close>

theorem C3_missing_output_raises:
  "multiprocess_repeatmasker failing_externals 0 (''chr1'', 0, 6000) ''genome.fa'' ''out'' example_world =
     Some (Inl (FileNotFoundError ''out/chr1.rs0.re6000.fa.out''),
       \<lparr>files = map_of [(''/out/chr1.rs0.re6000.fa'', fasta_text ''chr1'' ''ACGT'')],
        heap = [[Some ''RepeatMasker'', Some ''-nolow''],
                [Some ''RepeatMasker'', Some ''-nolow'', Some ''out/chr1.rs0.re6000.fa'']],
        cwd = ''/''\<rparr>)
   \<and> multiprocess_trf example_floats failing_externals 0 (''chr1'', 0, 6000) ''genome.fa'' ''/data/out''
       ''.2.5.7.80.10.40.500.dat'' example_trf_world =
     Some (Inl (FileNotFoundError ''/data/out/chr1.rs0.re6000.fa.2.5.7.80.10.40.500.dat''),
       \<lparr>files = map_of [(''/data/out/chr1.rs0.re6000.fa'', fasta_text ''chr1'' ''ACGT'')],
        heap = [[Some ''trf'', None, Some ''2'', Some ''5'', Some ''7'', Some ''80'', Some ''10'',
                 Some ''40'', Some ''500'', Some ''-d'', Some ''-h''],
                [Some ''trf'', Some ''/data/out/chr1.rs0.re6000.fa'', Some ''2'', Some ''5'', Some ''7'',
                 Some ''80'', Some ''10'', Some ''40'', Some ''500'', Some ''-d'', Some ''-h'']],
        cwd = ''/data/out''\<rparr>)"
proof
  show "multiprocess_repeatmasker failing_externals 0 (''chr1'', 0, 6000) ''genome.fa'' ''out'' example_world =
     Some (Inl (FileNotFoundError ''out/chr1.rs0.re6000.fa.out''),
       \<lparr>files = map_of [(''/out/chr1.rs0.re6000.fa'', fasta_text ''chr1'' ''ACGT'')],
        heap = [[Some ''RepeatMasker'', Some ''-nolow''],
                [Some ''RepeatMasker'', Some ''-nolow'', Some ''out/chr1.rs0.re6000.fa'']],
        cwd = ''/''\<rparr>)"
    apply (simp add: multiprocess_repeatmasker_def example_fasta_path Let_def)
    apply (simp add: then_io_def run_cmd_def list_copy_def list_append_def write_file_def
        example_world_def failing_externals_simps in_files_def
        create_repeatmasker_gtf_def parse_file_def example_resolved)
    done
next
  show "multiprocess_trf example_floats failing_externals 0 (''chr1'', 0, 6000) ''genome.fa'' ''/data/out''
       ''.2.5.7.80.10.40.500.dat'' example_trf_world =
     Some (Inl (FileNotFoundError ''/data/out/chr1.rs0.re6000.fa.2.5.7.80.10.40.500.dat''),
       \<lparr>files = map_of [(''/data/out/chr1.rs0.re6000.fa'', fasta_text ''chr1'' ''ACGT'')],
        heap = [[Some ''trf'', None, Some ''2'', Some ''5'', Some ''7'', Some ''80'', Some ''10'',
                 Some ''40'', Some ''500'', Some ''-d'', Some ''-h''],
                [Some ''trf'', Some ''/data/out/chr1.rs0.re6000.fa'', Some ''2'', Some ''5'', Some ''7'',
                 Some ''80'', Some ''10'', Some ''40'', Some ''500'', Some ''-d'', Some ''-h'']],
        cwd = ''/data/out''\<rparr>)"
    apply (simp add: multiprocess_trf_def example_slice_paths Let_def)
    apply (simp add: then_io_def run_cmd_def list_copy_def list_set_def write_file_def os_chdir_def
        example_trf_world_def failing_externals_simps in_files_def
        create_trf_gtf_def parse_file_def example_slice_paths)
    done
qed

text \<open>
  The three workers on one slice with the tool that does nothing.
\<close>

theorem C3_tool_failure_per_variant_witness:
  "(\<exists>w'. multiprocess_dust failing_externals 0 (''chr1'', 0, 6000) ''genome.fa'' ''out'' example_world =
            Some (Inr (), w')
          \<and> files w' ''/out/chr1.rs0.re6000.dust.gtf'' = Some [])
   \<and> (\<exists>w'. multiprocess_repeatmasker failing_externals 0 (''chr1'', 0, 6000) ''genome.fa'' ''out''
            example_world = Some (Inl (FileNotFoundError ''out/chr1.rs0.re6000.fa.out''), w')
          \<and> files w' = (files example_world)(''/out/chr1.rs0.re6000.fa'' \<mapsto> fasta_text ''chr1'' ''ACGT''))
   \<and> (\<exists>w'. multiprocess_trf example_floats failing_externals 0 (''chr1'', 0, 6000) ''genome.fa''
            ''/data/out'' ''.2.5.7.80.10.40.500.dat'' example_trf_world =
            Some (Inl (FileNotFoundError ''/data/out/chr1.rs0.re6000.fa.2.5.7.80.10.40.500.dat''), w')
          \<and> files w' = (files example_trf_world)
                (''/data/out/chr1.rs0.re6000.fa'' \<mapsto> fasta_text ''chr1'' ''ACGT''))"
proof -
  have h: "(0::nat) < length (heap example_world)" "(0::nat) < length (heap example_trf_world)"
    by (simp_all add: example_world_def example_trf_world_def)
  note a = C3_tool_failure_per_variant [of failing_externals 0 example_world
             "[''RepeatMasker'', ''-nolow'']" "''chr1''" 0 6000 "''genome.fa''" "''out''" _ _ example_floats,
             OF failing_externals_simps(1) h(1)]
  note b = C3_tool_failure_per_variant [of failing_externals 0 example_trf_world
             _ "''chr1''" 0 6000 "''genome.fa''" "''/data/out''"
             "[''trf'', ''/data/out/chr1.rs0.re6000.fa'', ''2'', ''5'', ''7'', ''80'', ''10'', ''40'',
               ''500'', ''-d'', ''-h'']"
             "''.2.5.7.80.10.40.500.dat''" example_floats,
             OF failing_externals_simps(1) h(2)]
  have d: "\<exists>w'. multiprocess_dust failing_externals 0 (''chr1'', 0, 6000) ''genome.fa'' ''out'' example_world =
            Some (Inr (), w')
          \<and> files w' ''/out/chr1.rs0.re6000.dust.gtf'' = Some []"
    using a [THEN conjunct1]
    by (simp add: example_world_def example_slice_paths)
  have m: "\<exists>w'. multiprocess_repeatmasker failing_externals 0 (''chr1'', 0, 6000) ''genome.fa'' ''out''
            example_world = Some (Inl (FileNotFoundError ''out/chr1.rs0.re6000.fa.out''), w')
          \<and> files w' = (files example_world)(''/out/chr1.rs0.re6000.fa'' \<mapsto> fasta_text ''chr1'' ''ACGT'')"
    using a [THEN conjunct2, THEN conjunct1]
    by (simp add: example_world_def example_fasta_path example_resolved failing_externals_simps)
  have t: "\<exists>w'. multiprocess_trf example_floats failing_externals 0 (''chr1'', 0, 6000) ''genome.fa''
            ''/data/out'' ''.2.5.7.80.10.40.500.dat'' example_trf_world =
            Some (Inl (FileNotFoundError ''/data/out/chr1.rs0.re6000.fa.2.5.7.80.10.40.500.dat''), w')
          \<and> files w' = (files example_trf_world)
                (''/data/out/chr1.rs0.re6000.fa'' \<mapsto> fasta_text ''chr1'' ''ACGT'')"
    using b [THEN conjunct2, THEN conjunct2]
    by (simp add: example_trf_world_def example_slice_paths failing_externals_simps)
  from d m t show ?thesis by blast
qed

end
